theory Spec2Isabelle
  imports Main
begin

section \<open>Data model of units/provisioning_setup_host.go\<close>

text \<open>
  Go errors are values: \<open>error option\<close> is a Go \<open>error\<close> (\<open>None\<close> is \<open>nil\<close>), and a Go
  result pair \<open>(v, err)\<close> of which only one side is used is a sum (\<open>Inl\<close> the error).
  \<open>time.Duration\<close> is an integer number of nanoseconds, as in Go.
\<close>

type_synonym error = string
type_synonym duration = int
type_synonym time = int
type_synonym credentials = string

definition Second :: duration where
  "Second = 1000000000"

definition Minute :: duration where
  "Minute = 60 * Second"

definition provisionRetryLimit :: int where
  "provisionRetryLimit = 15"

definition setupHostJobName :: string where
  "setupHostJobName = ''provisioning-setup-host''"

definition scpTimeout :: duration where
  "scpTimeout = Minute"

text \<open>\<open>errors.Wrap\<close> and \<open>errors.WithStack\<close> of pkg/errors return \<open>nil\<close> on a \<open>nil\<close> error.\<close>

definition wrap :: "error \<Rightarrow> string \<Rightarrow> error" where
  "wrap e msg = msg @ '': '' @ e"

definition Wrap :: "error option \<Rightarrow> string \<Rightarrow> error option" where
  "Wrap err msg = (case err of None \<Rightarrow> None | Some e \<Rightarrow> Some (wrap e msg))"

definition withStack :: "error \<Rightarrow> error" where
  "withStack e = e"

definition WithStack :: "error option \<Rightarrow> error option" where
  "WithStack err = (case err of None \<Rightarrow> None | Some e \<Rightarrow> Some (withStack e))"

text \<open>A \<open>'%s'\<close> of a format string: the argument between two apostrophes.\<close>

definition squote :: "string \<Rightarrow> string" where
  "squote s = CHR 0x27 # s @ [CHR 0x27]"

text \<open>
  The distro's bootstrap method is a Go string; the switch of \<open>runHostSetup\<close> names three
  values and has no default, so every other value falls through it.
\<close>

datatype bootstrap_method =
    BootstrapMethodNone
  | BootstrapMethodUserData
  | BootstrapMethodSSH
  | BootstrapMethodOther

text \<open>
  Modelled from the spec: the status constants of package evergreen are not under src/
  (the code names \<open>HostRunning\<close> and \<open>HostProvisioning\<close> only). Section 3 of the spec lists
  Starting, Provisioning, Provisioned, Running, Unprovisioned, Terminated, and section
  4.4 the status ProvisionedNotRunning.
\<close>

datatype host_status =
    HostStarting
  | HostProvisioning
  | HostProvisioned
  | HostProvisionedNotRunning
  | HostRunning
  | HostUnprovisioned
  | HostTerminated

record bootstrap_settings =
  Method :: bootstrap_method

text \<open>
  \<open>IsWindows\<close>, \<open>IsPowerShellSetup\<close> and \<open>HomeDir\<close> are methods of the distro in Go
  (package distro is not under src/): what they return for a distro is a field here.
\<close>

record distro =
  Id_distro :: string
  User_distro :: string
  Setup :: string
  Teardown :: string
  WorkDir :: string
  BootstrapSettings :: bootstrap_settings
  IsWindows :: bool
  IsPowerShellSetup :: bool
  HomeDir :: string

record spawn_options =
  SpawnedByTask :: bool

record provision_options =
  LoadCLI :: bool
  OwnerId :: string
  TaskId :: string

record host =
  Id_host :: string
  Host :: string
  IP :: string
  User :: string
  Provider :: string
  Distro :: distro
  Status :: host_status
  Provisioned :: bool
  ProvisionAttempts :: int
  SpawnOptions :: spawn_options
  ProvisionOptions :: "provision_options option"
  CreationTime :: time
  ProvisionTime :: time
  LastCommunicationTime :: time

record StaticHostInfo =
  User_info :: string
  Hostname :: string
  Port :: string

record DBUser =
  Id_user :: string
  APIKey :: string

record settings =
  ApiUrl :: string
  UiUrl :: string

record loadClientResult =
  BinaryPath :: string
  ConfigPath :: string

text \<open>
  The job: \<open>jhost\<close> is the unexported field \<open>host\<close> (\<open>None\<close> is the nil pointer),
  \<open>WaitUntil\<close> the \<open>amboy.JobTimeInfo\<close> set by \<open>UpdateTimeInfo\<close>, \<open>Errors\<close> what
  \<open>AddError\<close> collected and \<open>Complete\<close> what \<open>MarkComplete\<close> sets.
\<close>

record setupHostJob =
  HostID :: string
  JobID :: string
  TaskID :: string
  Priority :: int
  WaitUntil :: "time option"
  jhost :: "host option"
  Errors :: "error list"
  Complete :: bool

subsection \<open>Effects on the outside world\<close>

text \<open>
  Every call that leaves the process, and every log entry, is recorded in order in a
  trace; each function below returns its result together with the effects it performed.
  A remote command carries its argument list and the deadline that this file puts on its
  context with \<open>context.WithTimeout\<close> (\<open>None\<close>: the call runs under the caller's
  context). A write to the credential store or to the local file system carries the
  answer it got, so that the trace determines the store and the files it leaves behind.
  \<open>grip.Info(message.Fields{...})\<close> and its siblings are \<open>Log\<close> with the level and the
  text of the "message" (or "operation") field.
\<close>

datatype copier = PkgCopyScript | JobCopyScript

datatype remote_op =
    CredentialsWrite
  | ServiceUserRun
  | JasperFetchReinstall
  | ScriptScp copier string
  | CliMkdir
  | CliCurl
  | ConfigScp
  | SpawnSetupCommand
  | TaskDataFetch

datatype host_op =
    OpIncProvisionAttempts
  | OpSetDNSName string
  | OpUpdateLastCommunicated
  | OpSetProvisionedNotRunning
  | OpSetUnprovisioned
  | OpMarkAsProvisioned

datatype level = LevelDebug | LevelInfo | LevelNotice | LevelError | LevelCritical

datatype effect =
    Log level string
  | DBFindHost string
  | DBFindUser string
  | DBFindDistro string
  | HostOp host_op
  | CloudGetManagerOptions
  | CloudGetManager
  | CloudGetDNSName
  | CloudOnUp
  | Remote remote_op "string list" "duration option"
  | EventHostProvisionError string
  | EventProvisionFailed string string
  | CredGenerate string
  | CredSave string credentials "error option"
  | CredDelete string "error option"
  | FileCreate string "error + string"
  | FileChmod string
  | FileWrite string
  | FileClose string
  | FileRemove string "error option"
  | QueuePut setupHostJob

subsection \<open>Answers of the outside world\<close>

text \<open>
  Packages host, distro, user, cloud, event, util and the queue are not under src/. What
  their calls answer during one run is a parameter: \<open>env\<close> fixes, for every call this
  file makes, the value or the error that comes back. \<open>RunCommand\<close> answers a remote
  command with its captured output and its error, \<open>ctx_Err\<close> is \<open>ctx.Err()\<close>, \<open>Now\<close> is
  \<open>time.Now()\<close>, and the three script names are the constants of package evergreen.
\<close>

record env =
  Settings :: settings
  ctx_Err :: "error option"
  Now :: time
  FindOneId :: "string \<Rightarrow> error + host option"
  user_FindOne :: "string \<Rightarrow> error + DBUser"
  distro_FindOne :: "string \<Rightarrow> error + distro"
  IncProvisionAttempts_err :: "error option"
  SetDNSName_err :: "error option"
  UpdateLastCommunicated_err :: "error option"
  SetProvisionedNotRunning_err :: "error option"
  SetUnprovisioned_err :: "error option"
  MarkAsProvisioned_err :: "error option"
  GetSSHInfo :: "host \<Rightarrow> error + StaticHostInfo"
  GetSSHOptions :: "host \<Rightarrow> error + string list"
  GetManagerOptions_err :: "error option"
  GetManager_err :: "error option"
  GetDNSName :: "host \<Rightarrow> error + string"
  OnUp_err :: "error option"
  GenerateJasperCredentials_res :: "error + credentials"
  WriteJasperCredentialsFilesCommands :: "credentials \<Rightarrow> error + string"
  SaveJasperCredentials_err :: "error option"
  DeleteJasperCredentials_err :: "error option"
  SetupServiceUserCommands :: "host \<Rightarrow> error + string"
  FetchAndReinstallJasperCommands :: "host \<Rightarrow> string"
  CurlCommand :: "host \<Rightarrow> string"
  SetupCommand :: "host \<Rightarrow> string"
  RunCommand :: "remote_op \<Rightarrow> string \<times> error option"
  TempFile :: "string \<Rightarrow> error + string"
  Chmod_err :: "string \<Rightarrow> error option"
  WriteString_err :: "string \<Rightarrow> error option"
  Close_err :: "string \<Rightarrow> error option"
  Remove_err :: "string \<Rightarrow> error option"
  ExpandString :: "string \<Rightarrow> error + string"
  json_Marshal_err :: "error option"
  WriteTempFile :: "error + string"
  RemoteQueue_Started :: bool
  RemoteQueue_Put_err :: "error option"
  SetupScriptName :: string
  PowerShellSetupScriptName :: string
  TeardownScriptName :: string

subsection \<open>Helpers\<close>

text \<open>\<open>message.WrapError(err, ...)\<close> is logged only when \<open>err\<close> is not nil.\<close>

definition grip :: "level \<Rightarrow> string \<Rightarrow> effect list" where
  "grip l m = [Log l m]"

definition grip_WrapError :: "level \<Rightarrow> error option \<Rightarrow> string \<Rightarrow> effect list" where
  "grip_WrapError l err m = (case err of None \<Rightarrow> [] | Some e \<Rightarrow> [Log l m])"

text \<open>
  \<open>filepath.Clean\<close>, \<open>filepath.Join\<close> and \<open>filepath.Base\<close> of Go on slash-separated
  paths. \<open>Clean\<close> drops empty and \<open>.\<close> elements, resolves \<open>..\<close> against the element
  before it (dropping it at the root, keeping it at the start of a relative path), and
  returns \<open>.\<close> for an empty result. \<open>Join\<close> ignores empty elements and cleans the
  result; with no non-empty element it returns the empty string. \<open>Base\<close> strips
  trailing slashes and returns the last element, \<open>.\<close> for the empty path and \<open>/\<close> for a
  path of slashes only.
\<close>

fun split_slash :: "string \<Rightarrow> string list" where
  "split_slash [] = [[]]"
| "split_slash (c # cs) =
     (if c = CHR ''/'' then [] # split_slash cs
      else (case split_slash cs of [] \<Rightarrow> [[c]] | w # ws \<Rightarrow> (c # w) # ws))"

fun join_slash :: "string list \<Rightarrow> string" where
  "join_slash [] = []"
| "join_slash [e] = e"
| "join_slash (e # es) = e @ ''/'' @ join_slash es"

fun clean_step :: "bool \<Rightarrow> string list \<Rightarrow> string \<Rightarrow> string list" where
  "clean_step rooted done e =
     (if e = [] \<or> e = ''.'' then done
      else if e = ''..'' then
        (if done \<noteq> [] \<and> last done \<noteq> ''..'' then butlast done
         else if rooted then done
         else done @ [e])
      else done @ [e])"

definition filepath_Clean :: "string \<Rightarrow> string" where
  "filepath_Clean p =
     (let rooted = (p \<noteq> [] \<and> hd p = CHR ''/'');
          out = (if rooted then ''/'' else [])
                @ join_slash (foldl (clean_step rooted) [] (split_slash p))
      in if out = [] then ''.'' else out)"

definition filepath_Join :: "string list \<Rightarrow> string" where
  "filepath_Join elems =
     (let es = filter (\<lambda>e. e \<noteq> []) elems
      in if es = [] then [] else filepath_Clean (join_slash es))"

definition filepath_Base :: "string \<Rightarrow> string" where
  "filepath_Base p =
     (if p = [] then ''.''
      else
        (let q = rev (dropWhile (\<lambda>c. c = CHR ''/'') (rev p))
         in if q = [] then ''/''
            else rev (takeWhile (\<lambda>c. c \<noteq> CHR ''/'') (rev q))))"

text \<open>\<open>fmt.Sprintf("%d", n)\<close>: the decimal digits of an integer.\<close>

fun digits :: "nat \<Rightarrow> string" where
  "digits n = (if n < 10 then [char_of (48 + n)] else digits (n div 10) @ [char_of (48 + n mod 10)])"

definition Sprintf_d :: "int \<Rightarrow> string" where
  "Sprintf_d n = (if n < 0 then ''-'' @ digits (nat (- n)) else digits (nat n))"

definition run_remote ::
  "env \<Rightarrow> remote_op \<Rightarrow> string list \<Rightarrow> duration option \<Rightarrow> (string \<times> error option) \<times> effect list" where
  "run_remote env op args deadline = (RunCommand env op, [Remote op args deadline])"

section \<open>Operations of packages that are not under src/\<close>

text \<open>
  Modelled from the spec: the methods of \<open>host.Host\<close> that write the host record are not
  under src/. Section 3 of the spec names them (increment-attempts, set-DNS,
  set-provisioned-not-running, set-unprovisioned, mark-provisioned,
  update-last-communicated) and says which field each one writes; section 4.1 says that
  a failure to persist the incremented attempt count is not fatal and that
  mark-provisioned persists provisioned=true with a timestamp (scenario A: status
  Provisioned). Each call is one effect and answers with the persistence error of
  \<open>env\<close>. The attempt count of the record in memory is incremented whether or not the
  write is persisted; the other methods change the record only when the write succeeds.
\<close>

definition IncProvisionAttempts :: "env \<Rightarrow> host \<Rightarrow> error option \<times> host \<times> effect list" where
  "IncProvisionAttempts env h =
     (IncProvisionAttempts_err env, h\<lparr>ProvisionAttempts := ProvisionAttempts h + 1\<rparr>,
      [HostOp OpIncProvisionAttempts])"

definition SetDNSName :: "env \<Rightarrow> string \<Rightarrow> host \<Rightarrow> error option \<times> host \<times> effect list" where
  "SetDNSName env dns h =
     (case SetDNSName_err env of
        Some e \<Rightarrow> (Some e, h, [HostOp (OpSetDNSName dns)])
      | None \<Rightarrow> (None, h\<lparr>Host := dns\<rparr>, [HostOp (OpSetDNSName dns)]))"

definition UpdateLastCommunicated :: "env \<Rightarrow> host \<Rightarrow> error option \<times> host \<times> effect list" where
  "UpdateLastCommunicated env h =
     (case UpdateLastCommunicated_err env of
        Some e \<Rightarrow> (Some e, h, [HostOp OpUpdateLastCommunicated])
      | None \<Rightarrow> (None, h\<lparr>LastCommunicationTime := Now env\<rparr>, [HostOp OpUpdateLastCommunicated]))"

definition SetProvisionedNotRunning :: "env \<Rightarrow> host \<Rightarrow> error option \<times> host \<times> effect list" where
  "SetProvisionedNotRunning env h =
     (case SetProvisionedNotRunning_err env of
        Some e \<Rightarrow> (Some e, h, [HostOp OpSetProvisionedNotRunning])
      | None \<Rightarrow> (None, h\<lparr>Status := HostProvisionedNotRunning\<rparr>, [HostOp OpSetProvisionedNotRunning]))"

definition SetUnprovisioned :: "env \<Rightarrow> host \<Rightarrow> error option \<times> host \<times> effect list" where
  "SetUnprovisioned env h =
     (case SetUnprovisioned_err env of
        Some e \<Rightarrow> (Some e, h, [HostOp OpSetUnprovisioned])
      | None \<Rightarrow> (None, h\<lparr>Status := HostUnprovisioned\<rparr>, [HostOp OpSetUnprovisioned]))"

definition MarkAsProvisioned :: "env \<Rightarrow> host \<Rightarrow> error option \<times> host \<times> effect list" where
  "MarkAsProvisioned env h =
     (case MarkAsProvisioned_err env of
        Some e \<Rightarrow> (Some e, h, [HostOp OpMarkAsProvisioned])
      | None \<Rightarrow>
          (None, h\<lparr>Status := HostProvisioned, Provisioned := True, ProvisionTime := Now env\<rparr>,
           [HostOp OpMarkAsProvisioned]))"

text \<open>
  Modelled from the spec: the credential methods of \<open>host.Host\<close> are not under src/.
  Section 3: a credential bundle is "persisted keyed by host id, safe to reissue
  (overwrite)"; section 4.4: issuing "generates a fresh credential bundle". Generation
  touches no store; a successful save binds the host id to the bundle and a successful
  delete removes the binding (\<open>store_after\<close> below).
\<close>

definition GenerateJasperCredentials :: "env \<Rightarrow> host \<Rightarrow> (error + credentials) \<times> effect list" where
  "GenerateJasperCredentials env h = (GenerateJasperCredentials_res env, [CredGenerate (Id_host h)])"

definition SaveJasperCredentials :: "env \<Rightarrow> host \<Rightarrow> credentials \<Rightarrow> error option \<times> effect list" where
  "SaveJasperCredentials env h c =
     (SaveJasperCredentials_err env, [CredSave (Id_host h) c (SaveJasperCredentials_err env)])"

definition DeleteJasperCredentials :: "env \<Rightarrow> host \<Rightarrow> error option \<times> effect list" where
  "DeleteJasperCredentials env h =
     (DeleteJasperCredentials_err env, [CredDelete (Id_host h) (DeleteJasperCredentials_err env)])"

fun store_step :: "(string \<rightharpoonup> credentials) \<Rightarrow> effect \<Rightarrow> (string \<rightharpoonup> credentials)" where
  "store_step m (CredSave i c None) = m(i \<mapsto> c)"
| "store_step m (CredDelete i None) = m(i := None)"
| "store_step m _ = m"

definition store_after :: "effect list \<Rightarrow> (string \<rightharpoonup> credentials) \<Rightarrow> (string \<rightharpoonup> credentials)" where
  "store_after es m = foldl store_step m es"

text \<open>
  The local file system (\<open>ioutil.TempFile\<close>, \<open>util.WriteTempFile\<close>, \<open>os.Remove\<close>): a
  successful creation adds the new file's name to the files that exist, a successful
  removal takes it away, a failed call changes nothing.
\<close>

definition ioutil_TempFile :: "env \<Rightarrow> string \<Rightarrow> (error + string) \<times> effect list" where
  "ioutil_TempFile env pat = (TempFile env pat, [FileCreate pat (TempFile env pat)])"

definition util_WriteTempFile :: "env \<Rightarrow> (error + string) \<times> effect list" where
  "util_WriteTempFile env = (WriteTempFile env, [FileCreate [] (WriteTempFile env)])"

definition os_Remove :: "env \<Rightarrow> string \<Rightarrow> error option \<times> effect list" where
  "os_Remove env file = (Remove_err env file, [FileRemove file (Remove_err env file)])"

fun files_step :: "string list \<Rightarrow> effect \<Rightarrow> string list" where
  "files_step fs (FileCreate pat (Inr file)) = file # fs"
| "files_step fs (FileRemove file None) = removeAll file fs"
| "files_step fs _ = fs"

definition files_after :: "effect list \<Rightarrow> string list \<Rightarrow> string list" where
  "files_after es fs = foldl files_step fs es"

section \<open>The functions of units/provisioning_setup_host.go\<close>

text \<open>
  The receiver \<open>j\<close> is used by the functions below \<open>Run\<close> only for \<open>j.ID()\<close> in log
  fields, for \<open>j.env\<close> (here \<open>env\<close>) and for \<open>j.host\<close>, which is the very pointer that
  \<open>Run\<close> passes down as \<open>h\<close>, \<open>targetHost\<close> or \<open>target\<close>: they take the host and return
  it as the call left it.
\<close>

definition shouldRetryProvisioning :: "host \<Rightarrow> bool" where
  "shouldRetryProvisioning h \<longleftrightarrow>
     ProvisionAttempts h \<le> provisionRetryLimit \<and> Status h = HostProvisioning \<and> \<not> Provisioned h"

definition makeSetupHostJob :: setupHostJob where
  "makeSetupHostJob =
     \<lparr>HostID = [], JobID = [], TaskID = [], Priority = 0, WaitUntil = None, jhost = None,
      Errors = [], Complete = False\<rparr>"

definition NewHostSetupJob :: "host \<Rightarrow> string \<Rightarrow> setupHostJob" where
  "NewHostSetupJob h ident =
     makeSetupHostJob
       \<lparr>HostID := Id_host h, JobID := setupHostJobName @ ''.'' @ Id_host h @ ''.'' @ ident,
        Priority := 1, jhost := Some h\<rparr>"

definition AddError :: "error option \<Rightarrow> setupHostJob \<Rightarrow> setupHostJob" where
  "AddError err j = (case err of None \<Rightarrow> j | Some e \<Rightarrow> j\<lparr>Errors := Errors j @ [e]\<rparr>)"

definition MarkComplete :: "setupHostJob \<Rightarrow> setupHostJob" where
  "MarkComplete j = j\<lparr>Complete := True\<rparr>"

definition setDNSName :: "env \<Rightarrow> host \<Rightarrow> error option \<times> host \<times> effect list" where
  "setDNSName env h =
     (if Host h \<noteq> [] then (None, h, [])
      else
        (case GetDNSName env h of
           Inl err \<Rightarrow>
             (Some (wrap err (''error checking DNS name for host '' @ Id_host h)), h,
              [CloudGetDNSName])
         | Inr hostDNS \<Rightarrow>
             if hostDNS = [] then
               (if IP h \<noteq> [] then (None, h, [CloudGetDNSName])
                else
                  (Some (''instance '' @ Id_host h
                         @ '' is running but not returning a DNS name or IP address''),
                   h, [CloudGetDNSName]))
             else
               (case SetDNSName env hostDNS h of
                  (Some err, h1, es) \<Rightarrow>
                    (Some (wrap err (''error setting DNS name for host '' @ Id_host h)), h1,
                     CloudGetDNSName # es)
                | (None, h1, es) \<Rightarrow> (None, h1, CloudGetDNSName # es))))"

definition expandScript :: "env \<Rightarrow> string \<Rightarrow> error + string" where
  "expandScript env s =
     (case ExpandString env s of
        Inl err \<Rightarrow> Inl (wrap err ''expansions error'')
      | Inr script \<Rightarrow> Inr script)"

definition buildScpCommand ::
  "string \<Rightarrow> string \<Rightarrow> StaticHostInfo \<Rightarrow> string \<Rightarrow> string list \<Rightarrow> string list" where
  "buildScpCommand src dst info user opts =
     ([''scp'', ''-vvv'', ''-P'', Port info] @ opts)
     @ [src, user @ ''@'' @ Hostname info @ '':'' @ dst]"

text \<open>
  The deferred function of both \<open>copyScript\<close>s (lines 433-451 and 510-530): close the
  file, remove it, log either failure, log the duration.
\<close>

definition copyScript_deferred :: "env \<Rightarrow> string \<Rightarrow> effect list" where
  "copyScript_deferred env file =
     (let (rmErr, es) = os_Remove env file
      in [FileClose file]
         @ grip_WrapError LevelError (Close_err env file) ''cleaning up after script copy''
         @ es
         @ grip_WrapError LevelError rmErr ''cleaning up after script copy''
         @ grip LevelDebug ''copy script'')"

definition copyScript :: "env \<Rightarrow> host \<Rightarrow> string \<Rightarrow> string \<Rightarrow> error option \<times> effect list" where
  "copyScript env h name script =
     (case GetSSHInfo env h of
        Inl err \<Rightarrow> (Some (withStack err), [])
      | Inr hostInfo \<Rightarrow>
          (let user = (if User_info hostInfo \<noteq> [] then User_info hostInfo
                       else User_distro (Distro h));
               (created, es1) = ioutil_TempFile env (filepath_Base name)
           in case created of
                Inl err \<Rightarrow> (Some (wrap err ''error creating temporary script file''), es1)
              | Inr file \<Rightarrow>
                  (case Chmod_err env file of
                     Some err \<Rightarrow>
                       (Some (wrap err ''error setting file permissions''),
                        es1 @ [FileChmod file])
                   | None \<Rightarrow>
                       (let (res, es2) =
                          (case expandScript env script of
                             Inl err \<Rightarrow>
                               (Some (wrap err (''error expanding script for host '' @ Id_host h)),
                                [])
                           | Inr expanded \<Rightarrow>
                               (case WriteString_err env file of
                                  Some err \<Rightarrow>
                                    (Some (wrap err ''error writing local script''),
                                     [FileWrite file])
                                | None \<Rightarrow>
                                    (case GetSSHOptions env h of
                                       Inl err \<Rightarrow>
                                         (Some (wrap err (''error getting ssh options for host ''
                                                          @ Id_host h)),
                                          [FileWrite file])
                                     | Inr sshOptions \<Rightarrow>
                                         (let scpArgs =
                                                buildScpCommand file name hostInfo user sshOptions;
                                              ((out, err), es3) =
                                                run_remote env (ScriptScp PkgCopyScript name)
                                                  scpArgs (Some scpTimeout)
                                          in (Wrap err ''error copying script to remote machine'',
                                              [FileWrite file] @ es3)))))
                        in (res, es1 @ [FileChmod file] @ es2 @ copyScript_deferred env file)))))"

definition setupHostJob_copyScript ::
  "env \<Rightarrow> host \<Rightarrow> string \<Rightarrow> string \<Rightarrow> error option \<times> effect list" where
  "setupHostJob_copyScript env target name script =
     (case GetSSHInfo env target of
        Inl err \<Rightarrow> (Some (withStack err), [])
      | Inr hostInfo \<Rightarrow>
          (let user = (if User_info hostInfo \<noteq> [] then User_info hostInfo
                       else User_distro (Distro target));
               (created, es1) = ioutil_TempFile env (filepath_Base name)
           in case created of
                Inl err \<Rightarrow> (Some (wrap err ''error creating temporary script file''), es1)
              | Inr file \<Rightarrow>
                  (case Chmod_err env file of
                     Some err \<Rightarrow>
                       (Some (wrap err ''error setting file permissions''),
                        es1 @ [FileChmod file])
                   | None \<Rightarrow>
                       (let (res, es2) =
                          (case expandScript env script of
                             Inl err \<Rightarrow>
                               (Some (wrap err (''error expanding script for host ''
                                                @ Id_host target)),
                                [])
                           | Inr expanded \<Rightarrow>
                               (case WriteString_err env file of
                                  Some err \<Rightarrow>
                                    (Some (wrap err ''error writing local script''),
                                     [FileWrite file])
                                | None \<Rightarrow>
                                    (case GetSSHOptions env target of
                                       Inl err \<Rightarrow>
                                         (Some (wrap err (''error getting ssh options for host ''
                                                          @ Id_host target)),
                                          [FileWrite file])
                                     | Inr sshOptions \<Rightarrow>
                                         (let scpArgs =
                                                buildScpCommand file name hostInfo user sshOptions;
                                              ((out, err), es3) =
                                                run_remote env (ScriptScp JobCopyScript name)
                                                  scpArgs (Some scpTimeout)
                                          in (Wrap err ''error copying script to remote machine'',
                                              [FileWrite file] @ es3
                                              @ grip_WrapError LevelNotice err
                                                  ''problem copying script to host'')))))
                        in (res, es1 @ [FileChmod file] @ es2 @ copyScript_deferred env file)))))"

definition putJasperCredentials ::
  "env \<Rightarrow> host \<Rightarrow> string list \<Rightarrow> error option \<times> effect list" where
  "putJasperCredentials env h sshOptions =
     (let (gen, es1) = GenerateJasperCredentials env h
      in case gen of
           Inl err \<Rightarrow> (Some (wrap err ''could not generate Jasper credentials for host''), es1)
         | Inr creds \<Rightarrow>
             (case WriteJasperCredentialsFilesCommands env creds of
                Inl err \<Rightarrow>
                  (Some (wrap err ''could not get command to write Jasper credentials file''),
                   es1)
              | Inr writeCmds \<Rightarrow>
                  (let es2 = grip LevelInfo ''putting Jasper credentials on host'';
                       ((logs, err), es3) =
                         run_remote env CredentialsWrite (writeCmds # sshOptions)
                           (Some scpTimeout)
                   in case err of
                        Some e \<Rightarrow>
                          (Some (wrap e (''error copying credentials to remote machine: ''
                                         @ ''command returned '' @ logs)),
                           es1 @ es2 @ es3)
                      | None \<Rightarrow>
                          (let (serr, es4) = SaveJasperCredentials env h creds
                           in case serr of
                                Some e \<Rightarrow>
                                  (Some (wrap e ''error saving credentials''),
                                   es1 @ es2 @ es3 @ es4)
                              | None \<Rightarrow> (None, es1 @ es2 @ es3 @ es4)))))"

definition setupServiceUser ::
  "env \<Rightarrow> host \<Rightarrow> string list \<Rightarrow> error option \<times> effect list" where
  "setupServiceUser env h sshOptions =
     (if \<not> IsWindows (Distro h) then (None, [])
      else
        (case SetupServiceUserCommands env h of
           Inl err \<Rightarrow> (Some (wrap err ''could not get command to set up service user''), [])
         | Inr cmds \<Rightarrow>
             (let path = filepath_Join [HomeDir (Distro h), ''setup-user.ps1''];
                  (cerr, es1) = copyScript env h path cmds
              in case cerr of
                   Some err \<Rightarrow>
                     (Some (wrap err ''error copying script to set up service user''), es1)
                 | None \<Rightarrow>
                     (let ((logs, err), es2) =
                            run_remote env ServiceUserRun
                              ((''powershell ./'' @ filepath_Base path @ '' && rm -f ./''
                                @ filepath_Base path) # sshOptions)
                              None
                      in case err of
                           Some e \<Rightarrow>
                             (Some (wrap e (''error while setting up service user: ''
                                            @ ''command returned '' @ logs)),
                              es1 @ es2)
                         | None \<Rightarrow> (None, es1 @ es2)))))"

definition doFetchAndReinstallJasper ::
  "env \<Rightarrow> host \<Rightarrow> string list \<Rightarrow> error option \<times> effect list" where
  "doFetchAndReinstallJasper env h sshOptions =
     (let cmd = FetchAndReinstallJasperCommands env h;
          ((logs, err), es) = run_remote env JasperFetchReinstall (cmd # sshOptions) None
      in case err of
           Some e \<Rightarrow>
             (Some (wrap e (''error while fetching Jasper binary and installing service on ''
                            @ ''remote host: command returned '' @ squote logs)),
              es)
         | None \<Rightarrow> (None, es))"

definition setupJasper :: "env \<Rightarrow> host \<Rightarrow> error option \<times> effect list" where
  "setupJasper env h =
     (case GetSSHOptions env h of
        Inl err \<Rightarrow> (Some (wrap err (''error getting ssh options for host '' @ Id_host h)), [])
      | Inr sshOptions \<Rightarrow>
          (case setupServiceUser env h sshOptions of
             (Some err, es1) \<Rightarrow> (Some (wrap err ''error setting up service user''), es1)
           | (None, es1) \<Rightarrow>
               (case putJasperCredentials env h sshOptions of
                  (Some err, es2) \<Rightarrow>
                    (Some (wrap err ''error putting Jasper credentials on remote host''),
                     es1 @ es2)
                | (None, es2) \<Rightarrow>
                    (case doFetchAndReinstallJasper env h sshOptions of
                       (Some err, es3) \<Rightarrow>
                         (Some (wrap err ''error starting Jasper service on remote host''),
                          es1 @ es2 @ es3)
                     | (None, es3) \<Rightarrow> (None, es1 @ es2 @ es3)))))"

text \<open>
  The end of \<open>runHostSetup\<close> (lines 289-314), reached after the SSH case of the switch
  and by every bootstrap method the switch does not name.
\<close>

definition runHostSetup_scripts :: "env \<Rightarrow> host \<Rightarrow> error option \<times> effect list" where
  "runHostSetup_scripts env targetHost =
     (if SpawnedByTask (SpawnOptions targetHost) then (None, [])
      else
        (let (serr, es1) =
               (if Setup (Distro targetHost) \<noteq> [] then
                  (let scriptName =
                         (if IsPowerShellSetup (Distro targetHost)
                          then PowerShellSetupScriptName env else SetupScriptName env);
                       (err, es) =
                         setupHostJob_copyScript env targetHost
                           (filepath_Join [''~'', scriptName]) (Setup (Distro targetHost))
                   in ((case err of
                          Some e \<Rightarrow>
                            Some (wrap e (''error copying setup script '' @ scriptName
                                          @ '' to host '' @ Id_host targetHost))
                        | None \<Rightarrow> None),
                       es))
                else (None, []))
         in case serr of
              Some e \<Rightarrow> (Some e, es1)
            | None \<Rightarrow>
                (if Teardown (Distro targetHost) \<noteq> [] then
                   (let (err, es2) =
                          setupHostJob_copyScript env targetHost
                            (filepath_Join [''~'', TeardownScriptName env])
                            (Teardown (Distro targetHost))
                    in case err of
                         Some e \<Rightarrow>
                           (Some (wrap e (''error copying teardown script ''
                                          @ TeardownScriptName env @ '' to host ''
                                          @ Id_host targetHost)),
                            es1 @ es2)
                       | None \<Rightarrow> (None, es1 @ es2))
                 else (None, es1))))"

definition runHostSetup :: "env \<Rightarrow> host \<Rightarrow> error option \<times> host \<times> effect list" where
  "runHostSetup env targetHost =
     (case GetManagerOptions_err env of
        Some err \<Rightarrow>
          (Some (wrap err (''can't get ManagerOpts for '' @ squote (Id_host targetHost))),
           targetHost, [CloudGetManagerOptions])
      | None \<Rightarrow>
     (case GetManager_err env of
        Some err \<Rightarrow>
          (Some (wrap err (''failed to get cloud manager for host '' @ Id_host targetHost
                           @ '' with provider '' @ Provider targetHost)),
           targetHost, [CloudGetManagerOptions, CloudGetManager])
      | None \<Rightarrow>
     (case setDNSName env targetHost of
        (Some err, h1, es1) \<Rightarrow>
          (Some (wrap err ''error setting DNS name''), h1,
           [CloudGetManagerOptions, CloudGetManager] @ es1)
      | (None, h1, es1) \<Rightarrow>
     (case OnUp_err env of
        Some err \<Rightarrow>
          (Some (wrap err (''OnUp callback failed for host '' @ Id_host h1)), h1,
           [CloudGetManagerOptions, CloudGetManager] @ es1 @ [CloudOnUp])
      | None \<Rightarrow>
     (let pre = [CloudGetManagerOptions, CloudGetManager] @ es1 @ [CloudOnUp]
      in case Method (BootstrapSettings (Distro h1)) of
           BootstrapMethodNone \<Rightarrow> (None, h1, pre)
         | BootstrapMethodUserData \<Rightarrow>
             (let (lctErr, h2, es2) = UpdateLastCommunicated env h1;
                  es3 = grip_WrapError LevelError lctErr
                          ''failed to update host's last communication time'';
                  (err, h3, es4) = SetProvisionedNotRunning env h2
              in case err of
                   Some e \<Rightarrow>
                     (Some (wrap e (''error marking host '' @ Id_host h3 @ '' as provisioned'')),
                      h3, pre @ es2 @ es3 @ es4)
                 | None \<Rightarrow>
                     (None, h3,
                      pre @ es2 @ es3 @ es4
                      @ grip LevelInfo (''host successfully provisioned by app server, ''
                                        @ ''awaiting host to finish provisioning itself'')))
         | BootstrapMethodSSH \<Rightarrow>
             (case setupJasper env h1 of
                (Some err, es2) \<Rightarrow>
                  (Some (wrap err (''error putting Jasper on host '' @ squote (Id_host h1))), h1,
                   pre @ es2 @ grip_WrapError LevelError (Some err) ''could not set up Jasper'')
              | (None, es2) \<Rightarrow>
                  (let (err, es3) = runHostSetup_scripts env h1
                   in (err, h1,
                       pre @ es2
                       @ grip LevelInfo ''successfully fetched Jasper binary and started service''
                       @ es3)))
         | BootstrapMethodOther \<Rightarrow>
             (let (err, es3) = runHostSetup_scripts env h1 in (err, h1, pre @ es3)))))))"

definition loadClient :: "env \<Rightarrow> host \<Rightarrow> (error + loadClientResult) \<times> effect list" where
  "loadClient env target =
     (case ProvisionOptions target of
        None \<Rightarrow> (Inl ''ProvisionOptions is nil'', [])
      | Some po \<Rightarrow>
     (if OwnerId po = [] then (Inl ''OwnerId not set'', [])
      else
     (case user_FindOne env (OwnerId po) of
        Inl err \<Rightarrow>
          (Inl (wrap err (''couldn't fetch owner '' @ OwnerId po @ '' for host'')),
           [DBFindUser (OwnerId po)])
      | Inr owner \<Rightarrow>
     (let targetDir = ''cli_bin''
      in case GetSSHInfo env target of
           Inl err \<Rightarrow>
             (Inl (wrap err (''error parsing ssh info '' @ Host target)),
              [DBFindUser (OwnerId po)])
         | Inr hostSSHInfo \<Rightarrow>
     (case GetSSHOptions env target of
        Inl err \<Rightarrow>
          (Inl (wrap err (''Error getting ssh options for host '' @ Id_host target)),
           [DBFindUser (OwnerId po)])
      | Inr sshOptions0 \<Rightarrow>
     (let sshOptions = sshOptions0 @ [''-o'', ''UserKnownHostsFile=/dev/null''];
          ((output, err), es1) =
            run_remote env CliMkdir
              ((''mkdir -m 777 -p ~/'' @ targetDir @ '' && (echo 'export PATH=\"$PATH:~/''
                @ targetDir @ ''\"' >> ~/.profile || true; echo 'export PATH=\"$PATH:~/''
                @ targetDir @ ''\"' >> ~/.bash_profile || true)'') # sshOptions)
              (Some (30 * Second))
      in case err of
           Some e \<Rightarrow>
             (Inl (wrap e (''error running setup command for cli: '' @ output)),
              [DBFindUser (OwnerId po)] @ es1)
         | None \<Rightarrow>
     (let ((curlOut, cerr), es2) =
            run_remote env CliCurl
              ([Hostname hostSSHInfo, User target, ''-p'', Port hostSSHInfo] @ sshOptions
               @ [CurlCommand env target])
              (Some (2 * Minute))
      in case cerr of
           Some e \<Rightarrow>
             (Inl (wrap e (''error running curl command for cli, '' @ curlOut)),
              [DBFindUser (OwnerId po)] @ es1 @ es2)
         | None \<Rightarrow>
     (case json_Marshal_err env of
        Some e \<Rightarrow> (Inl (withStack e), [DBFindUser (OwnerId po)] @ es1 @ es2)
      | None \<Rightarrow>
     (let (tmp, es3) = util_WriteTempFile env
      in case tmp of
           Inl e \<Rightarrow> (Inl (withStack e), [DBFindUser (OwnerId po)] @ es1 @ es2 @ es3)
         | Inr tempFileName \<Rightarrow>
     (let scpArgs =
            buildScpCommand tempFileName (filepath_Join [''~'', targetDir, ''.evergreen.yml''])
              hostSSHInfo (User target) sshOptions;
          ((scpOut, serr), es4) = run_remote env ConfigScp scpArgs (Some (30 * Second));
          (rmErr, es5) = os_Remove env tempFileName;
          es = [DBFindUser (OwnerId po)] @ es1 @ es2 @ es3 @ es4 @ es5
      in case serr of
           Some e \<Rightarrow>
             (Inl (wrap e (''error running SCP command for evergreen.yml, '' @ scpOut)), es)
         | None \<Rightarrow>
             (Inr \<lparr>BinaryPath = filepath_Join [''~'', ''evergreen''],
                   ConfigPath = targetDir @ ''/.evergreen.yml''\<rparr>,
              es)))))))))))"

definition fetchRemoteTaskData ::
  "env \<Rightarrow> string \<Rightarrow> string \<Rightarrow> string \<Rightarrow> host \<Rightarrow> error option \<times> effect list" where
  "fetchRemoteTaskData env taskId cliPath confPath target =
     (case GetSSHInfo env target of
        Inl err \<Rightarrow> (Some (wrap err (''error parsing ssh info '' @ Host target)), [])
      | Inr hostSSHInfo \<Rightarrow>
          (case GetSSHOptions env target of
             Inl err \<Rightarrow>
               (Some (wrap err (''Error getting ssh options for host '' @ Id_host target)), [])
           | Inr sshOptions0 \<Rightarrow>
               (let sshOptions = sshOptions0 @ [''-o'', ''UserKnownHostsFile=/dev/null''];
                    fetchCmd = cliPath @ '' -c '' @ confPath @ '' fetch -t '' @ taskId
                               @ '' --source --artifacts --dir='' @ squote (WorkDir (Distro target));
                    ((out, err), es) =
                      run_remote env TaskDataFetch
                        ([Hostname hostSSHInfo, User target, ''-p'', Port hostSSHInfo] @ sshOptions
                         @ [fetchCmd])
                        (Some (15 * Minute))
                in (WithStack err,
                    es @ grip_WrapError LevelError err (''fetch-artifacts-'' @ taskId)))))"

text \<open>
  The spawn-host block of \<open>provisionHost\<close> (lines 629-702), entered when the provision
  options are present and ask for the CLI; \<open>po\<close> is \<open>h.ProvisionOptions\<close>.
\<close>

definition provisionHost_loadCLI ::
  "env \<Rightarrow> host \<Rightarrow> provision_options \<Rightarrow> error option \<times> host \<times> effect list" where
  "provisionHost_loadCLI env h po =
     (let es0 = grip LevelInfo (''Uploading client binary to host '' @ Id_host h);
          (loaded, es1) = loadClient env h
      in case loaded of
           Inl err \<Rightarrow>
             (let (uerr, h1, es2) = SetUnprovisioned env h
              in (Some (wrap err (''Failed to load client binary onto host '' @ Id_host h
                                  @ '': '' @ err)),
                  h1,
                  es0 @ es1
                  @ grip_WrapError LevelError (Some err) ''failed to load client binary onto host''
                  @ es2 @ grip_WrapError LevelError uerr ''setting host unprovisioned''))
         | Inr lcr \<Rightarrow>
     (case GetSSHOptions env h of
        Inl err \<Rightarrow>
          (let (uerr, h1, es2) = SetUnprovisioned env h
           in (Some (wrap err (''Error getting ssh options for host '' @ Id_host h)), h1,
               es0 @ es1 @ es2 @ grip_WrapError LevelError uerr ''setting host unprovisioned''))
      | Inr sshOptions \<Rightarrow>
     (case distro_FindOne env (Id_distro (Distro h)) of
        Inl err \<Rightarrow>
          (let (uerr, h1, es2) = SetUnprovisioned env h
           in (Some (wrap err (''Error finding distro for host '' @ Id_host h)), h1,
               es0 @ es1 @ [DBFindDistro (Id_distro (Distro h))] @ es2
               @ grip_WrapError LevelError uerr ''setting host unprovisioned''))
      | Inr d \<Rightarrow>
     (let h1 = h\<lparr>Distro := d\<rparr>;
          es3 = [DBFindDistro (Id_distro (Distro h))]
                @ grip LevelInfo (''Running setup script for spawn host '' @ Id_host h);
          ((logs, err), es4) =
            run_remote env SpawnSetupCommand (SetupCommand env h1 # sshOptions) None
      in case err of
           Some e \<Rightarrow>
             (let (uerr, h2, es5) = SetUnprovisioned env h1
              in (Some (wrap e (''error running setup script on remote host: '' @ logs)), h2,
                  es0 @ es1 @ es3 @ es4 @ es5
                  @ grip_WrapError LevelError uerr ''setting host unprovisioned''
                  @ [EventProvisionFailed (Id_host h1) logs]))
         | None \<Rightarrow>
             (if OwnerId po \<noteq> [] \<and> length (TaskId po) > 0 then
                (let (ferr, es6) =
                       fetchRemoteTaskData env (TaskId po) (BinaryPath lcr) (ConfigPath lcr) h1
                 in (None, h1,
                     es0 @ es1 @ es3 @ es4 @ grip LevelInfo ''fetching data for task on host''
                     @ es6 @ grip_WrapError LevelError ferr ''failed to fetch data onto host''))
              else (None, h1, es0 @ es1 @ es3 @ es4))))))"

text \<open>The end of \<open>provisionHost\<close> (lines 704-726): mark the host provisioned.\<close>

definition provisionHost_finish :: "env \<Rightarrow> host \<Rightarrow> error option \<times> host \<times> effect list" where
  "provisionHost_finish env h =
     (let es0 = grip LevelInfo ''setup complete for host'';
          (err, h1, es1) = MarkAsProvisioned env h
      in case err of
           Some e \<Rightarrow>
             (Some (wrap e (''error marking host '' @ Id_host h @ '' as provisioned'')), h1,
              es0 @ es1)
         | None \<Rightarrow> (None, h1, es0 @ es1 @ grip LevelInfo ''host successfully provisioned''))"

definition provisionHost :: "env \<Rightarrow> host \<Rightarrow> error option \<times> host \<times> effect list" where
  "provisionHost env h =
     (let es0 = grip LevelInfo ''setting up host'';
          (incErr, h1, es1) = IncProvisionAttempts env h;
          es2 = grip_WrapError LevelCritical incErr ''increment provisioning errors failed'';
          (err, h2, es3) = runHostSetup env h1;
          pre = es0 @ es1 @ es2 @ es3
      in case err of
           Some e \<Rightarrow>
             (if shouldRetryProvisioning h2 then (None, h2, pre)
              else
                (let (uerr, h3, es4) = SetUnprovisioned env h2
                 in (Some (wrap e (''error initializing host '' @ Id_host h2)), h3,
                     pre @ [EventProvisionFailed (Id_host h2) []] @ es4
                     @ grip_WrapError LevelError uerr ''setting host unprovisioned'')))
         | None \<Rightarrow>
             (if Method (BootstrapSettings (Distro h2)) = BootstrapMethodUserData
              then (None, h2, pre)
              else
                (case (case ProvisionOptions h2 of
                         None \<Rightarrow> (None, h2, [])
                       | Some po \<Rightarrow>
                           if LoadCLI po then provisionHost_loadCLI env h2 po
                           else (None, h2, [])) of
                   (Some e, h3, es4) \<Rightarrow> (Some e, h3, pre @ es4)
                 | (None, h3, es4) \<Rightarrow>
                     (let (ferr, h4, es5) = provisionHost_finish env h3
                      in (ferr, h4, pre @ es4 @ es5)))))"

definition setupHost :: "env \<Rightarrow> host \<Rightarrow> error option \<times> host \<times> effect list" where
  "setupHost env h =
     (let es0 = grip LevelInfo ''attempting to setup host''
      in case ctx_Err env of
           Some err \<Rightarrow>
             (Some (wrap err (''hostinit canceled during setup for host '' @ Id_host h)), h, es0)
         | None \<Rightarrow>
             (let es1 = grip LevelInfo ''provisioning host'';
                  (perr, h1, es2) = provisionHost env h;
                  es3 =
                    (case perr of
                       None \<Rightarrow> []
                     | Some e \<Rightarrow>
                         [EventHostProvisionError (Id_host h1)]
                         @ (if Method (BootstrapSettings (Distro h1)) = BootstrapMethodSSH then
                              (let (derr, es) = DeleteJasperCredentials env h1
                               in es @ grip_WrapError LevelError derr
                                         (''could not delete Jasper credentials after failed ''
                                          @ ''provision attempt''))
                            else [])
                         @ grip_WrapError LevelError (Some e) ''provisioning host encountered error'')
              in if Status h1 = HostProvisioning \<and> \<not> Provisioned h1 then
                   (None, h1, es0 @ es1 @ es2 @ es3 @ grip LevelInfo ''retrying provisioning'')
                 else
                   (None, h1,
                    es0 @ es1 @ es2 @ es3
                    @ grip LevelInfo ''successfully finished provisioning host'')))"

text \<open>
  \<open>tryRequeue\<close> reads \<open>j.host\<close>, which \<open>Run\<close> has set before it defers the call; on a nil
  \<open>j.host\<close> the Go code would dereference nil, and the model does nothing.
\<close>

definition tryRequeue :: "env \<Rightarrow> setupHostJob \<Rightarrow> setupHostJob \<times> effect list" where
  "tryRequeue env j =
     (case jhost j of
        None \<Rightarrow> (j, [])
      | Some h \<Rightarrow>
          if shouldRetryProvisioning h \<and> RemoteQueue_Started env then
            (let job = (NewHostSetupJob h (''attempt-'' @ Sprintf_d (ProvisionAttempts h)))
                         \<lparr>WaitUntil := Some (Now env + Minute)\<rparr>;
                 err = RemoteQueue_Put_err env
             in (AddError err j,
                 [QueuePut job]
                 @ grip_WrapError LevelCritical err ''failed to requeue setup job''))
          else (j, []))"

text \<open>
  \<open>Run\<close>: the deferred calls run in reverse order of their \<open>defer\<close>, so \<open>tryRequeue\<close>
  (deferred after the skip check) runs before \<open>MarkComplete\<close>.
\<close>

definition Run :: "env \<Rightarrow> setupHostJob \<Rightarrow> setupHostJob \<times> effect list" where
  "Run env j =
     (let (found, es0) =
            (case jhost j of
               Some h \<Rightarrow> (Inr h, [])
             | None \<Rightarrow>
                 (case FindOneId env (HostID j) of
                    Inl err \<Rightarrow> (Inl err, [DBFindHost (HostID j)])
                  | Inr None \<Rightarrow>
                      (Inl (''could not find host '' @ HostID j @ '' for job '' @ TaskID j),
                       [DBFindHost (HostID j)])
                  | Inr (Some h) \<Rightarrow> (Inr h, [DBFindHost (HostID j)])))
      in case found of
           Inl err \<Rightarrow> (MarkComplete (AddError (Some err) j), es0)
         | Inr h \<Rightarrow>
             if Status h = HostRunning \<or> Provisioned h then
               (MarkComplete (j\<lparr>jhost := Some h\<rparr>),
                es0 @ grip LevelInfo ''skipping setup because host is already set up'')
             else
               (let (err, h1, es1) = setupHost env h;
                    j1 = AddError err (j\<lparr>jhost := Some h1\<rparr>);
                    (j2, es2) = tryRequeue env j1
                in (MarkComplete j2, es0 @ es1 @ es2)))"

section \<open>Concrete inputs\<close>

text \<open>
  A host in the state the cloud path leaves it in (Provisioning, no attempt made), its
  distro, and an outside world in which every call succeeds. The theorems below are
  applied to these and to variations of them.
\<close>

definition example_distro :: distro where
  "example_distro =
     \<lparr>Id_distro = ''ubuntu1604'', User_distro = ''ubuntu'', Setup = ''echo hi'', Teardown = [],
      WorkDir = ''/data'', BootstrapSettings = \<lparr>Method = BootstrapMethodSSH\<rparr>,
      IsWindows = False, IsPowerShellSetup = False, HomeDir = ''/home/ubuntu''\<rparr>"

definition example_host :: host where
  "example_host =
     \<lparr>Id_host = ''h1'', Host = ''h1.example.com'', IP = [], User = ''ubuntu'', Provider = ''ec2'',
      Distro = example_distro, Status = HostProvisioning, Provisioned = False,
      ProvisionAttempts = 0, SpawnOptions = \<lparr>SpawnedByTask = False\<rparr>,
      ProvisionOptions = None, CreationTime = 0, ProvisionTime = 0,
      LastCommunicationTime = 0\<rparr>"

definition example_env :: env where
  "example_env =
     \<lparr>Settings = \<lparr>ApiUrl = ''https://api.example.com'', UiUrl = ''https://ui.example.com''\<rparr>,
      ctx_Err = None, Now = 1000,
      FindOneId = (\<lambda>i. Inr (Some example_host)),
      user_FindOne = (\<lambda>i. Inr \<lparr>Id_user = i, APIKey = ''key''\<rparr>),
      distro_FindOne = (\<lambda>i. Inr example_distro),
      IncProvisionAttempts_err = None, SetDNSName_err = None,
      UpdateLastCommunicated_err = None, SetProvisionedNotRunning_err = None,
      SetUnprovisioned_err = None, MarkAsProvisioned_err = None,
      GetSSHInfo = (\<lambda>h. Inr \<lparr>User_info = [], Hostname = Host h, Port = ''22''\<rparr>),
      GetSSHOptions = (\<lambda>h. Inr [''-i'', ''key.pem'']),
      GetManagerOptions_err = None, GetManager_err = None,
      GetDNSName = (\<lambda>h. Inr ''dns.example.com''), OnUp_err = None,
      GenerateJasperCredentials_res = Inr ''secret'',
      WriteJasperCredentialsFilesCommands = (\<lambda>c. Inr (''write '' @ c)),
      SaveJasperCredentials_err = None, DeleteJasperCredentials_err = None,
      SetupServiceUserCommands = (\<lambda>h. Inr ''net user''),
      FetchAndReinstallJasperCommands = (\<lambda>h. ''fetch jasper''),
      CurlCommand = (\<lambda>h. ''curl evergreen''), SetupCommand = (\<lambda>h. ''sh setup.sh''),
      RunCommand = (\<lambda>op. ([], None)),
      TempFile = (\<lambda>pat. Inr (''/tmp/'' @ pat @ ''42'')),
      Chmod_err = (\<lambda>f. None), WriteString_err = (\<lambda>f. None), Close_err = (\<lambda>f. None),
      Remove_err = (\<lambda>f. None), ExpandString = (\<lambda>s. Inr s), json_Marshal_err = None,
      WriteTempFile = Inr ''/tmp/cfg7'', RemoteQueue_Started = True,
      RemoteQueue_Put_err = None, SetupScriptName = ''setup.sh'',
      PowerShellSetupScriptName = ''setup.ps1'', TeardownScriptName = ''teardown.sh''\<rparr>"

section \<open>Predicates of the theorems\<close>

text \<open>
  The deadline that the code puts on each kind of remote command, as the theorems below
  prove it: 30 seconds for the remote shell setup and for the transfer of the client's
  configuration file, one minute for the credential write and for a script copy, two
  minutes for the download of the client binary, fifteen minutes for the fetch of a
  task's data, and no deadline of its own for the run of the service-user script, for
  the command that fetches and reinstalls the agent and for the spawn host's setup
  command.
\<close>

fun remote_deadline :: "remote_op \<Rightarrow> duration option" where
  "remote_deadline CliMkdir = Some (30 * Second)"
| "remote_deadline ConfigScp = Some (30 * Second)"
| "remote_deadline CredentialsWrite = Some (60 * Second)"
| "remote_deadline (ScriptScp c name) = Some (60 * Second)"
| "remote_deadline CliCurl = Some (120 * Second)"
| "remote_deadline TaskDataFetch = Some (900 * Second)"
| "remote_deadline ServiceUserRun = None"
| "remote_deadline JasperFetchReinstall = None"
| "remote_deadline SpawnSetupCommand = None"

text \<open>
  The effects that the bootstrap sequence (\<open>runHostSetup\<close>), the rest of \<open>provisionHost\<close>
  and the whole of \<open>setupHost\<close> can perform; \<open>sp\<close> is the host's spawned-by-task flag.
\<close>

fun bootstrap_effect :: "bool \<Rightarrow> effect \<Rightarrow> bool" where
  "bootstrap_effect sp (Remote op args d) =
     (d = remote_deadline op \<and>
      (case op of
         CredentialsWrite \<Rightarrow> True
       | ServiceUserRun \<Rightarrow> True
       | JasperFetchReinstall \<Rightarrow> True
       | ScriptScp c name \<Rightarrow> c = PkgCopyScript \<or> \<not> sp
       | _ \<Rightarrow> False))"
| "bootstrap_effect sp (HostOp op) =
     (case op of
        OpSetDNSName dns \<Rightarrow> True
      | OpUpdateLastCommunicated \<Rightarrow> True
      | OpSetProvisionedNotRunning \<Rightarrow> True
      | _ \<Rightarrow> False)"
| "bootstrap_effect sp (DBFindHost i) = False"
| "bootstrap_effect sp (DBFindUser i) = False"
| "bootstrap_effect sp (DBFindDistro i) = False"
| "bootstrap_effect sp (EventHostProvisionError i) = False"
| "bootstrap_effect sp (EventProvisionFailed i l) = False"
| "bootstrap_effect sp (CredDelete i r) = False"
| "bootstrap_effect sp (QueuePut job) = False"
| "bootstrap_effect sp e = True"

fun provision_effect :: "effect \<Rightarrow> bool" where
  "provision_effect (Remote op args d) =
     (d = remote_deadline op \<and>
      (case op of
         CliMkdir \<Rightarrow> True
       | CliCurl \<Rightarrow> True
       | ConfigScp \<Rightarrow> True
       | SpawnSetupCommand \<Rightarrow> True
       | TaskDataFetch \<Rightarrow> True
       | _ \<Rightarrow> False))"
| "provision_effect (HostOp op) =
     (case op of OpSetUnprovisioned \<Rightarrow> True | OpMarkAsProvisioned \<Rightarrow> True | _ \<Rightarrow> False)"
| "provision_effect (DBFindHost i) = False"
| "provision_effect (EventHostProvisionError i) = False"
| "provision_effect (CredDelete i r) = False"
| "provision_effect (QueuePut job) = False"
| "provision_effect e = True"

fun setup_effect :: "bool \<Rightarrow> effect \<Rightarrow> bool" where
  "setup_effect sp (Remote op args d) =
     (d = remote_deadline op
      \<and> (case op of ScriptScp c name \<Rightarrow> c = PkgCopyScript \<or> \<not> sp | _ \<Rightarrow> True))"
| "setup_effect sp (DBFindHost i) = False"
| "setup_effect sp (QueuePut job) = False"
| "setup_effect sp e = True"

text \<open>
  \<open>runs_on env j h\<close>: \<open>h\<close> is the host that \<open>Run\<close> works on, attached to the job or found
  by its id. \<open>skipped h\<close> is the idempotency check of \<open>Run\<close>. \<open>runs\<close> is a sequence of
  runs of one host, each on the record that the previous run left, under the job that
  \<open>tryRequeue\<close> builds for it.
\<close>

definition runs_on :: "env \<Rightarrow> setupHostJob \<Rightarrow> host \<Rightarrow> bool" where
  "runs_on env j h \<longleftrightarrow>
     jhost j = Some h \<or> (jhost j = None \<and> FindOneId env (HostID j) = Inr (Some h))"

definition skipped :: "host \<Rightarrow> bool" where
  "skipped h \<longleftrightarrow> Status h = HostRunning \<or> Provisioned h"




fun is_QueuePut :: "effect \<Rightarrow> bool" where
  "is_QueuePut (QueuePut job) = True"
| "is_QueuePut e = False"

section \<open>Lemmas on the effects and on the host record\<close>

lemma bootstrap_effect_setup: "bootstrap_effect sp e \<Longrightarrow> setup_effect sp e"
  by (cases e) (auto split: remote_op.splits host_op.splits)

lemma scpTimeout_eq: "scpTimeout = 60 * Second"
  by (simp add: scpTimeout_def Minute_def)

lemma copyScript_effects:
  "list_all (bootstrap_effect sp) (snd (copyScript env h name script))"
  unfolding copyScript_def copyScript_deferred_def
  by (simp add: Let_def split_beta grip_def grip_WrapError_def run_remote_def os_Remove_def
      ioutil_TempFile_def scpTimeout_eq
      split: sum.splits option.splits)

lemma setupHostJob_copyScript_effects:
  "list_all (bootstrap_effect False) (snd (setupHostJob_copyScript env h name script))"
  unfolding setupHostJob_copyScript_def copyScript_deferred_def
  by (simp add: Let_def split_beta grip_def grip_WrapError_def run_remote_def os_Remove_def
      ioutil_TempFile_def scpTimeout_eq
      split: sum.splits option.splits)

lemma putJasperCredentials_effects:
  "list_all (bootstrap_effect sp) (snd (putJasperCredentials env h opts))"
  unfolding putJasperCredentials_def
  by (simp add: Let_def split_beta grip_def run_remote_def GenerateJasperCredentials_def
      SaveJasperCredentials_def scpTimeout_eq
      split: sum.splits option.splits)

lemma setupServiceUser_effects:
  "list_all (bootstrap_effect sp) (snd (setupServiceUser env h opts))"
  unfolding setupServiceUser_def
  by (simp add: Let_def split_beta run_remote_def copyScript_effects
      split: sum.splits option.splits)

lemma doFetchAndReinstallJasper_effects:
  "list_all (bootstrap_effect sp) (snd (doFetchAndReinstallJasper env h opts))"
  unfolding doFetchAndReinstallJasper_def
  by (simp add: Let_def split_beta run_remote_def split: option.splits)

lemma setupJasper_effects:
  "list_all (bootstrap_effect sp) (snd (setupJasper env h))"
  unfolding setupJasper_def
  by (simp add: split_beta setupServiceUser_effects putJasperCredentials_effects
      doFetchAndReinstallJasper_effects
      split: sum.splits option.splits)

lemma runHostSetup_scripts_spawned:
  "SpawnedByTask (SpawnOptions h) \<Longrightarrow> runHostSetup_scripts env h = (None, [])"
  by (simp add: runHostSetup_scripts_def)

lemma runHostSetup_scripts_effects:
  "list_all (bootstrap_effect (SpawnedByTask (SpawnOptions h))) (snd (runHostSetup_scripts env h))"
proof (cases "SpawnedByTask (SpawnOptions h)")
  case True
  then show ?thesis by (simp add: runHostSetup_scripts_spawned)
next
  case False
  then show ?thesis
    unfolding runHostSetup_scripts_def
    by (simp add: Let_def split_beta setupHostJob_copyScript_effects split: option.splits)
qed

lemma setDNSName_effects:
  "list_all (bootstrap_effect sp) (snd (snd (setDNSName env h)))"
  unfolding setDNSName_def SetDNSName_def
  by (simp add: split_beta split: sum.splits option.splits)

lemma setDNSName_host:
  "ProvisionAttempts (fst (snd (setDNSName env h))) = ProvisionAttempts h"
  "Provisioned (fst (snd (setDNSName env h))) = Provisioned h"
  "Status (fst (snd (setDNSName env h))) = Status h"
  "SpawnOptions (fst (snd (setDNSName env h))) = SpawnOptions h"
  "Distro (fst (snd (setDNSName env h))) = Distro h"
  "Id_host (fst (snd (setDNSName env h))) = Id_host h"
  "ProvisionOptions (fst (snd (setDNSName env h))) = ProvisionOptions h"
  unfolding setDNSName_def SetDNSName_def
  by (simp_all add: split_beta split: sum.splits option.splits)

lemma runHostSetup_effects:
  "list_all (bootstrap_effect (SpawnedByTask (SpawnOptions h))) (snd (snd (runHostSetup env h)))"
proof -
  have "list_all (bootstrap_effect (SpawnedByTask (SpawnOptions h)))
          (snd (runHostSetup_scripts env (fst (snd (setDNSName env h)))))"
    using runHostSetup_scripts_effects [of "fst (snd (setDNSName env h))" env]
    by (simp add: setDNSName_host)
  then show ?thesis
    unfolding runHostSetup_def
    by (simp add: Let_def split_beta grip_def grip_WrapError_def UpdateLastCommunicated_def
        SetProvisionedNotRunning_def setDNSName_effects setupJasper_effects
        split: option.splits bootstrap_method.splits)
qed

lemma runHostSetup_host:
  "ProvisionAttempts (fst (snd (runHostSetup env h))) = ProvisionAttempts h"
  "Provisioned (fst (snd (runHostSetup env h))) = Provisioned h"
  "SpawnOptions (fst (snd (runHostSetup env h))) = SpawnOptions h"
  "Distro (fst (snd (runHostSetup env h))) = Distro h"
  "Id_host (fst (snd (runHostSetup env h))) = Id_host h"
  "ProvisionOptions (fst (snd (runHostSetup env h))) = ProvisionOptions h"
  unfolding runHostSetup_def
  by (simp_all add: Let_def split_beta UpdateLastCommunicated_def SetProvisionedNotRunning_def
      setDNSName_host split: option.splits bootstrap_method.splits)

lemma runHostSetup_status:
  "fst (runHostSetup env h) \<noteq> None \<Longrightarrow> Status (fst (snd (runHostSetup env h))) = Status h"
  unfolding runHostSetup_def
  by (simp add: Let_def split_beta UpdateLastCommunicated_def SetProvisionedNotRunning_def
      setDNSName_host split: option.splits bootstrap_method.splits if_splits)

lemma provision_effect_setup: "provision_effect e \<Longrightarrow> setup_effect sp e"
  by (cases e) (auto split: remote_op.splits host_op.splits)

lemma list_all_bootstrap_setup:
  "list_all (bootstrap_effect sp) es \<Longrightarrow> list_all (setup_effect sp) es"
  by (induction es) (auto intro: bootstrap_effect_setup)

lemma list_all_provision_setup:
  "list_all provision_effect es \<Longrightarrow> list_all (setup_effect sp) es"
  by (induction es) (auto intro: provision_effect_setup)



lemma loadClient_effects:
  "list_all provision_effect (snd (loadClient env h))"
  unfolding loadClient_def
  by (simp add: Let_def split_beta run_remote_def os_Remove_def util_WriteTempFile_def
      Minute_def split: sum.splits option.splits)

lemma fetchRemoteTaskData_effects:
  "list_all provision_effect (snd (fetchRemoteTaskData env t c p h))"
  unfolding fetchRemoteTaskData_def
  by (simp add: Let_def split_beta run_remote_def grip_WrapError_def Minute_def
      split: sum.splits option.splits)

lemma provisionHost_loadCLI_effects:
  "list_all provision_effect (snd (snd (provisionHost_loadCLI env h po)))"
  unfolding provisionHost_loadCLI_def
  by (simp add: Let_def split_beta run_remote_def grip_def grip_WrapError_def
      SetUnprovisioned_def loadClient_effects fetchRemoteTaskData_effects
      split: sum.splits option.splits)

lemma provisionHost_loadCLI_host:
  "ProvisionAttempts (fst (snd (provisionHost_loadCLI env h po))) = ProvisionAttempts h"
  "SpawnOptions (fst (snd (provisionHost_loadCLI env h po))) = SpawnOptions h"
  "Id_host (fst (snd (provisionHost_loadCLI env h po))) = Id_host h"
  unfolding provisionHost_loadCLI_def
  by (simp_all add: Let_def split_beta SetUnprovisioned_def split: sum.splits option.splits)

lemma provisionHost_finish_effects:
  "list_all provision_effect (snd (snd (provisionHost_finish env h)))"
  unfolding provisionHost_finish_def
  by (simp add: Let_def split_beta grip_def MarkAsProvisioned_def split: option.splits)

lemma provisionHost_finish_host:
  "ProvisionAttempts (fst (snd (provisionHost_finish env h))) = ProvisionAttempts h"
  "SpawnOptions (fst (snd (provisionHost_finish env h))) = SpawnOptions h"
  "Id_host (fst (snd (provisionHost_finish env h))) = Id_host h"
  unfolding provisionHost_finish_def
  by (simp_all add: Let_def split_beta MarkAsProvisioned_def split: option.splits)

lemma provisionHost_effects:
  "list_all (setup_effect (SpawnedByTask (SpawnOptions h))) (snd (snd (provisionHost env h)))"
proof -
  let ?h1 = "h\<lparr>ProvisionAttempts := ProvisionAttempts h + 1\<rparr>"
  have "list_all (bootstrap_effect (SpawnedByTask (SpawnOptions h))) (snd (snd (runHostSetup env ?h1)))"
    using runHostSetup_effects [of ?h1 env] by simp
  then have b: "list_all (setup_effect (SpawnedByTask (SpawnOptions h))) (snd (snd (runHostSetup env ?h1)))"
    by (rule list_all_bootstrap_setup)
  note p = list_all_provision_setup [OF provisionHost_loadCLI_effects]
    list_all_provision_setup [OF provisionHost_finish_effects]
  show ?thesis
    unfolding provisionHost_def IncProvisionAttempts_def
    by (simp add: Let_def split_beta grip_def grip_WrapError_def SetUnprovisioned_def b p
        split: option.splits)
qed

lemma provisionHost_host:
  "ProvisionAttempts (fst (snd (provisionHost env h))) = ProvisionAttempts h + 1"
  "SpawnOptions (fst (snd (provisionHost env h))) = SpawnOptions h"
  "Id_host (fst (snd (provisionHost env h))) = Id_host h"
  unfolding provisionHost_def IncProvisionAttempts_def
  by (simp_all add: Let_def split_beta SetUnprovisioned_def runHostSetup_host
      provisionHost_loadCLI_host provisionHost_finish_host split: option.splits)


lemma setupHost_effects:
  "list_all (setup_effect (SpawnedByTask (SpawnOptions h))) (snd (snd (setupHost env h)))"
  unfolding setupHost_def
  by (simp add: Let_def split_beta grip_def grip_WrapError_def DeleteJasperCredentials_def
      provisionHost_effects split: option.splits)

lemma setupHost_host:
  "ProvisionAttempts (fst (snd (setupHost env h))) =
     ProvisionAttempts h + (if ctx_Err env = None then 1 else 0)"
  "SpawnOptions (fst (snd (setupHost env h))) = SpawnOptions h"
  "Id_host (fst (snd (setupHost env h))) = Id_host h"
  unfolding setupHost_def
  by (simp_all add: Let_def split_beta provisionHost_host split: option.splits)


lemma setupHost_err:
  "fst (setupHost env h) = None \<longleftrightarrow> ctx_Err env = None"
  unfolding setupHost_def
  by (simp add: Let_def split_beta split: option.splits)

text \<open>What \<open>Run\<close> does for a job whose host is found and not skipped.\<close>

lemma Run_not_skipped:
  assumes "runs_on env j h" and "\<not> skipped h"
  shows "Run env j =
           (MarkComplete (fst (tryRequeue env (AddError (fst (setupHost env h))
                                (j\<lparr>jhost := Some (fst (snd (setupHost env h)))\<rparr>)))),
            (if jhost j = None then [DBFindHost (HostID j)] else [])
            @ snd (snd (setupHost env h))
            @ snd (tryRequeue env (AddError (fst (setupHost env h))
                     (j\<lparr>jhost := Some (fst (snd (setupHost env h)))\<rparr>))))"
  using assms unfolding Run_def runs_on_def skipped_def
  by (auto simp: Let_def split_beta)

lemma Run_not_found:
  assumes "\<not> (\<exists>h. runs_on env j h)"
  shows "Run env j =
           (MarkComplete (AddError (Some (case FindOneId env (HostID j) of Inl err \<Rightarrow> err
                | Inr _ \<Rightarrow> ''could not find host '' @ HostID j @ '' for job '' @ TaskID j)) j),
            [DBFindHost (HostID j)])"
  using assms unfolding Run_def runs_on_def
  by (auto simp: Let_def split: option.splits sum.splits)

lemma tryRequeue_jhost: "jhost (fst (tryRequeue env j)) = jhost j"
  unfolding tryRequeue_def
  by (simp add: Let_def AddError_def split: option.splits)

lemma list_all_not_in: "list_all P es \<Longrightarrow> \<not> P x \<Longrightarrow> x \<notin> set es"
  by (auto simp: list_all_iff)

lemma AddError_jhost: "jhost (AddError err j) = jhost j"
  by (simp add: AddError_def split: option.splits)

lemma Run_skipped:
  assumes "runs_on env j h" and "skipped h"
  shows "Run env j =
           (j\<lparr>jhost := Some h, Complete := True\<rparr>,
            (if jhost j = None then [DBFindHost (HostID j)] else [])
            @ [Log LevelInfo ''skipping setup because host is already set up''])"
  using assms unfolding Run_def runs_on_def skipped_def
  by (auto simp: MarkComplete_def grip_def)

lemma Run_jhost:
  assumes "runs_on env j h"
  shows "jhost (fst (Run env j)) = Some (if skipped h then h else fst (snd (setupHost env h)))"
proof (cases "skipped h")
  case True
  with assms show ?thesis by (simp add: Run_skipped)
next
  case False
  with assms show ?thesis
    by (simp add: Run_not_skipped MarkComplete_def tryRequeue_jhost AddError_jhost)
qed

lemma bootstrap_error_frame:
  assumes "fst (runHostSetup env h) = Some e"
  shows "Status (fst (snd (runHostSetup env h))) = Status h"
  using assms runHostSetup_status [of env h] by simp

lemma list_all_weaken: "list_all P es \<Longrightarrow> (\<And>e. P e \<Longrightarrow> Q e) \<Longrightarrow> list_all Q es"
  by (induction es) simp_all



lemma runs_on_NewHostSetupJob: "runs_on env (NewHostSetupJob h ident) h"
  by (simp add: runs_on_def NewHostSetupJob_def makeSetupHostJob_def)




lemma setup_effect_not_QueuePut: "setup_effect sp e \<Longrightarrow> \<not> is_QueuePut e"
  by (cases e) simp_all

lemma setup_effect_no_QueuePut:
  "list_all (setup_effect sp) es \<Longrightarrow> filter is_QueuePut es = []"
  by (induction es) (auto dest: setup_effect_not_QueuePut)

lemma tryRequeue_effects:
  "list_all (\<lambda>e. is_QueuePut e \<or> e = Log LevelCritical ''failed to requeue setup job'')
     (snd (tryRequeue env j))"
  unfolding tryRequeue_def
  by (simp add: Let_def grip_WrapError_def split: option.splits)

lemma Run_not_found_effects:
  "\<not> (\<exists>h. runs_on env j h) \<Longrightarrow> snd (Run env j) = [DBFindHost (HostID j)]"
  by (simp add: Run_not_found)

lemma Run_not_found_jhost:
  assumes "\<not> (\<exists>h. runs_on env j h)"
  shows "jhost (fst (Run env j)) = None"
proof -
  from assms have "jhost j = None"
    by (cases "jhost j") (auto simp: runs_on_def)
  then show ?thesis
    using Run_not_found [OF assms] by (simp add: MarkComplete_def AddError_def)
qed

lemma Run_effects:
  assumes "runs_on env j h"
  shows "list_all (\<lambda>e. setup_effect (SpawnedByTask (SpawnOptions h)) e \<or> is_QueuePut e
                       \<or> e = DBFindHost (HostID j))
           (snd (Run env j))"
proof (cases "skipped h")
  case True
  with assms show ?thesis by (simp add: Run_skipped)
next
  case False
  have a: "list_all (\<lambda>e. setup_effect (SpawnedByTask (SpawnOptions h)) e \<or> is_QueuePut e
                       \<or> e = DBFindHost (HostID j)) (snd (snd (setupHost env h)))"
    by (rule list_all_weaken [OF setupHost_effects]) simp
  have b: "list_all (\<lambda>e. setup_effect (SpawnedByTask (SpawnOptions h)) e \<or> is_QueuePut e
                       \<or> e = DBFindHost (HostID j)) (snd (tryRequeue env j'))" for j'
    by (rule list_all_weaken [OF tryRequeue_effects]) auto
  from assms False a b show ?thesis by (simp add: Run_not_skipped)
qed

lemma tryRequeue_attached:
  "jhost j = Some h \<Longrightarrow>
     tryRequeue env j =
       (if shouldRetryProvisioning h \<and> RemoteQueue_Started env then
          (AddError (RemoteQueue_Put_err env) j,
           [QueuePut ((NewHostSetupJob h (''attempt-'' @ Sprintf_d (ProvisionAttempts h)))
                        \<lparr>WaitUntil := Some (Now env + Minute)\<rparr>)]
           @ grip_WrapError LevelCritical (RemoteQueue_Put_err env)
               ''failed to requeue setup job'')
        else (j, []))"
  by (simp add: tryRequeue_def Let_def)

lemma NewHostSetupJob_record:
  "(NewHostSetupJob h ident)\<lparr>WaitUntil := Some t\<rparr> =
     \<lparr>HostID = Id_host h, JobID = ''provisioning-setup-host.'' @ Id_host h @ ''.'' @ ident,
      TaskID = [], Priority = 1, WaitUntil = Some t, jhost = Some h, Errors = [],
      Complete = False\<rparr>"
  by (simp add: NewHostSetupJob_def makeSetupHostJob_def setupHostJobName_def)

lemma filter_QueuePut_log:
  "filter is_QueuePut (grip_WrapError l err m) = []"
  by (simp add: grip_WrapError_def split: option.splits)

lemma Run_requeue:
  "filter is_QueuePut (snd (Run env j)) =
     (case jhost (fst (Run env j)) of
        None \<Rightarrow> []
      | Some h' \<Rightarrow>
          if shouldRetryProvisioning h' \<and> RemoteQueue_Started env then
            [QueuePut
               \<lparr>HostID = Id_host h',
                JobID = ''provisioning-setup-host.'' @ Id_host h' @ ''.attempt-''
                        @ Sprintf_d (ProvisionAttempts h'),
                TaskID = [], Priority = 1, WaitUntil = Some (Now env + 60 * Second),
                jhost = Some h', Errors = [], Complete = False\<rparr>]
          else [])"
proof (cases "\<exists>h. runs_on env j h")
  case False
  then show ?thesis by (simp add: Run_not_found_effects Run_not_found_jhost)
next
  case True
  then obtain h where h: "runs_on env j h" ..
  show ?thesis
  proof (cases "skipped h")
    case True
    with h show ?thesis
      by (auto simp: Run_skipped shouldRetryProvisioning_def skipped_def)
  next
    case False
    let ?h1 = "fst (snd (setupHost env h))"
    let ?j1 = "AddError (fst (setupHost env h)) (j\<lparr>jhost := Some ?h1\<rparr>)"
    have q: "filter is_QueuePut (snd (snd (setupHost env h))) = []"
      using setupHost_effects by (rule setup_effect_no_QueuePut)
    have j1: "jhost ?j1 = Some ?h1"
      by (simp add: AddError_jhost)
    have r: "jhost (fst (Run env j)) = Some ?h1"
      using h False by (simp add: Run_jhost)
    have t: "filter is_QueuePut (snd (Run env j)) = filter is_QueuePut (snd (tryRequeue env ?j1))"
      using h False by (simp add: Run_not_skipped q)
    show ?thesis
      unfolding t r tryRequeue_attached [OF j1]
      by (simp add: NewHostSetupJob_record filter_QueuePut_log Minute_def)
  qed
qed

lemma setupHost_not_cancelled:
  assumes "ctx_Err env = None"
  shows "fst (snd (setupHost env h)) = fst (snd (provisionHost env h))"
    and "fst (provisionHost env h) \<noteq> None \<Longrightarrow>
           Log LevelError ''provisioning host encountered error'' \<in> set (snd (snd (setupHost env h)))"
  using assms unfolding setupHost_def
  by (auto simp: Let_def split_beta grip_def grip_WrapError_def split: option.splits)

lemma Run_errors:
  assumes "runs_on env j h" and "\<not> skipped h" and "ctx_Err env = None"
  shows "jhost (fst (Run env j)) = Some (fst (snd (provisionHost env h)))"
    and "Errors (fst (Run env j)) =
           Errors j
           @ (if shouldRetryProvisioning (fst (snd (provisionHost env h))) \<and> RemoteQueue_Started env
              then (case RemoteQueue_Put_err env of None \<Rightarrow> [] | Some x \<Rightarrow> [x]) else [])"
proof -
  let ?hp = "fst (snd (provisionHost env h))"
  let ?j1 = "AddError (fst (setupHost env h)) (j\<lparr>jhost := Some (fst (snd (setupHost env h)))\<rparr>)"
  have e: "fst (setupHost env h) = None"
    using assms(3) by (simp add: setupHost_err)
  have j1: "?j1 = j\<lparr>jhost := Some ?hp\<rparr>"
    using assms(3) by (simp add: e AddError_def setupHost_not_cancelled)
  have a: "jhost (j\<lparr>jhost := Some ?hp\<rparr>) = Some ?hp"
    by simp
  have f: "fst (Run env j) = MarkComplete (fst (tryRequeue env ?j1))"
    using assms(1,2) by (simp add: Run_not_skipped)
  show "jhost (fst (Run env j)) = Some ?hp"
    using assms by (simp add: Run_jhost setupHost_not_cancelled)
  show "Errors (fst (Run env j)) =
           Errors j
           @ (if shouldRetryProvisioning ?hp \<and> RemoteQueue_Started env
              then (case RemoteQueue_Put_err env of None \<Rightarrow> [] | Some x \<Rightarrow> [x]) else [])"
    unfolding f j1 tryRequeue_attached [OF a]
    by (simp add: MarkComplete_def AddError_def split: option.splits)
qed

lemmas run_defs = Run_def setupHost_def provisionHost_def provisionHost_loadCLI_def
  provisionHost_finish_def loadClient_def fetchRemoteTaskData_def runHostSetup_def
  runHostSetup_scripts_def setupJasper_def setupServiceUser_def putJasperCredentials_def
  doFetchAndReinstallJasper_def setupHostJob_copyScript_def copyScript_def copyScript_deferred_def
  setDNSName_def tryRequeue_def expandScript_def buildScpCommand_def
  IncProvisionAttempts_def SetDNSName_def UpdateLastCommunicated_def SetProvisionedNotRunning_def
  SetUnprovisioned_def MarkAsProvisioned_def GenerateJasperCredentials_def
  SaveJasperCredentials_def DeleteJasperCredentials_def ioutil_TempFile_def util_WriteTempFile_def
  os_Remove_def run_remote_def grip_def grip_WrapError_def shouldRetryProvisioning_def
  NewHostSetupJob_def makeSetupHostJob_def AddError_def MarkComplete_def Wrap_def WithStack_def
  filepath_Join_def filepath_Clean_def filepath_Base_def provisionRetryLimit_def
  example_env_def example_host_def example_distro_def Let_def








lemma Run_id:
  assumes "runs_on env j h"
  shows "map_option Id_host (jhost (fst (Run env j))) = Some (Id_host h)"
  using assms by (simp add: Run_jhost setupHost_host)

lemma Run_requeue_failure:
  assumes "filter is_QueuePut (snd (Run env j)) \<noteq> []" and "RemoteQueue_Put_err env = Some e"
  shows "last (snd (Run env j)) = Log LevelCritical ''failed to requeue setup job''"
    and "last (Errors (fst (Run env j))) = e"
proof -
  have ex: "\<exists>h. runs_on env j h"
    using assms(1) by (cases "\<exists>h. runs_on env j h") (simp_all add: Run_not_found_effects)
  then obtain h where h: "runs_on env j h" ..
  have ns: "\<not> skipped h"
    using assms(1) h by (cases "skipped h") (simp_all add: Run_skipped)
  let ?h1 = "fst (snd (setupHost env h))"
  let ?j1 = "AddError (fst (setupHost env h)) (j\<lparr>jhost := Some ?h1\<rparr>)"
  have j1: "jhost ?j1 = Some ?h1"
    by (simp add: AddError_jhost)
  have q: "filter is_QueuePut (snd (snd (setupHost env h))) = []"
    using setupHost_effects by (rule setup_effect_no_QueuePut)
  have t: "filter is_QueuePut (snd (tryRequeue env ?j1)) \<noteq> []"
    using assms(1) h ns by (simp add: Run_not_skipped q)
  have c: "shouldRetryProvisioning ?h1 \<and> RemoteQueue_Started env"
    using t unfolding tryRequeue_attached [OF j1] by (simp split: if_splits)
  have r: "tryRequeue env ?j1 =
             (AddError (Some e) ?j1,
              [QueuePut ((NewHostSetupJob ?h1 (''attempt-'' @ Sprintf_d (ProvisionAttempts ?h1)))
                           \<lparr>WaitUntil := Some (Now env + Minute)\<rparr>),
               Log LevelCritical ''failed to requeue setup job''])"
    unfolding tryRequeue_attached [OF j1] using c assms(2) by (simp add: grip_WrapError_def)
  show "last (snd (Run env j)) = Log LevelCritical ''failed to requeue setup job''"
    using h ns by (simp add: Run_not_skipped r)
  have f: "fst (Run env j) = MarkComplete (fst (tryRequeue env ?j1))"
    using h ns by (simp add: Run_not_skipped)
  show "last (Errors (fst (Run env j))) = e"
    unfolding f r by (simp add: MarkComplete_def AddError_def)
qed

lemma example_cli_run:
  "Remote ConfigScp
     [''scp'', ''-vvv'', ''-P'', ''22'', ''-i'', ''key.pem'', ''-o'', ''UserKnownHostsFile=/dev/null'',
      ''/tmp/cfg7'', ''ubuntu@h1.example.com:~/cli_bin/.evergreen.yml'']
     (Some 30000000000)
   \<in> set (snd (Run example_env
               (NewHostSetupJob
                  (example_host\<lparr>ProvisionOptions := Some \<lparr>LoadCLI = True, OwnerId = ''me'', TaskId = ''t1''\<rparr>\<rparr>)
                  ''attempt-0'')))"
  "Remote CredentialsWrite [''write secret'', ''-i'', ''key.pem''] (Some 60000000000)
   \<in> set (snd (Run example_env
               (NewHostSetupJob
                  (example_host\<lparr>ProvisionOptions := Some \<lparr>LoadCLI = True, OwnerId = ''me'', TaskId = ''t1''\<rparr>\<rparr>)
                  ''attempt-0'')))"
  "Remote JasperFetchReinstall [''fetch jasper'', ''-i'', ''key.pem''] None
   \<in> set (snd (Run example_env
               (NewHostSetupJob
                  (example_host\<lparr>ProvisionOptions := Some \<lparr>LoadCLI = True, OwnerId = ''me'', TaskId = ''t1''\<rparr>\<rparr>)
                  ''attempt-0'')))"
  "Remote SpawnSetupCommand [''sh setup.sh'', ''-i'', ''key.pem''] None
   \<in> set (snd (Run example_env
               (NewHostSetupJob
                  (example_host\<lparr>ProvisionOptions := Some \<lparr>LoadCLI = True, OwnerId = ''me'', TaskId = ''t1''\<rparr>\<rparr>)
                  ''attempt-0'')))"
  "Remote ServiceUserRun
     [''powershell ./setup-user.ps1 && rm -f ./setup-user.ps1'', ''-i'', ''key.pem''] None
   \<in> set (snd (Run example_env
               (NewHostSetupJob (example_host\<lparr>Distro := example_distro\<lparr>IsWindows := True\<rparr>\<rparr>)
                  ''attempt-0'')))"
  by (simp_all add: run_defs Second_def scpTimeout_def Minute_def)

text \<open>The answers of the example world and the fields of the example host.\<close>

lemma example_env_simps:
  "ctx_Err example_env = None"
  "Now example_env = 1000"
  "FindOneId example_env i = Inr (Some example_host)"
  "IncProvisionAttempts_err example_env = None"
  "SetDNSName_err example_env = None"
  "UpdateLastCommunicated_err example_env = None"
  "SetProvisionedNotRunning_err example_env = None"
  "SetUnprovisioned_err example_env = None"
  "MarkAsProvisioned_err example_env = None"
  "GetManagerOptions_err example_env = None"
  "GetManager_err example_env = None"
  "GetDNSName example_env h = Inr ''dns.example.com''"
  "OnUp_err example_env = None"
  "GenerateJasperCredentials_res example_env = Inr ''secret''"
  "WriteJasperCredentialsFilesCommands example_env c = Inr (''write '' @ c)"
  "SaveJasperCredentials_err example_env = None"
  "RunCommand example_env op = ([], None)"
  "RemoteQueue_Started example_env = True"
  "RemoteQueue_Put_err example_env = None"
  by (simp_all add: example_env_def)

lemma example_host_simps:
  "Id_host example_host = ''h1''"
  "Host example_host = ''h1.example.com''"
  "IP example_host = []"
  "Status example_host = HostProvisioning"
  "Provisioned example_host = False"
  "ProvisionAttempts example_host = 0"
  "SpawnOptions example_host = \<lparr>SpawnedByTask = False\<rparr>"
  "ProvisionOptions example_host = None"
  "Distro example_host = example_distro"
  by (simp_all add: example_host_def)

section \<open>C1: a host that is already set up is skipped\<close>

text \<open>
  C1. For every host whose status is Running or whose provisioned flag is true, \<open>Run\<close>
  returns at once: the job is marked complete with the host attached and unchanged and
  with no error added, and the only effects are the lookup of the host by its id (when
  the job has no host attached) and the log entry of the skip. No remote command is run,
  no method of the host is called and no job is put on the queue.
\<close>

theorem Run_skip_no_effects:
  assumes "runs_on env j h" and "Status h = HostRunning \<or> Provisioned h"
  shows "Run env j =
           (j\<lparr>jhost := Some h, Complete := True\<rparr>,
            (if jhost j = None then [DBFindHost (HostID j)] else [])
            @ [Log LevelInfo ''skipping setup because host is already set up''])"
  using assms unfolding Run_def runs_on_def
  by (auto simp: MarkComplete_def grip_def)

text \<open>C1 at a Running host attached to the job, and at a provisioned host found by id.\<close>

theorem Run_skip_no_effects_witness:
  "Run example_env (NewHostSetupJob (example_host\<lparr>Status := HostRunning\<rparr>) ''attempt-3'') =
     ((NewHostSetupJob (example_host\<lparr>Status := HostRunning\<rparr>) ''attempt-3'')\<lparr>Complete := True\<rparr>,
      [Log LevelInfo ''skipping setup because host is already set up''])
   \<and> Run (example_env\<lparr>FindOneId := (\<lambda>i. Inr (Some (example_host\<lparr>Provisioned := True\<rparr>)))\<rparr>)
         (makeSetupHostJob\<lparr>HostID := ''h1''\<rparr>) =
     (makeSetupHostJob
        \<lparr>HostID := ''h1'', jhost := Some (example_host\<lparr>Provisioned := True\<rparr>), Complete := True\<rparr>,
      [DBFindHost ''h1'', Log LevelInfo ''skipping setup because host is already set up''])"
  using Run_skip_no_effects [of example_env
      "NewHostSetupJob (example_host\<lparr>Status := HostRunning\<rparr>) ''attempt-3''"
      "example_host\<lparr>Status := HostRunning\<rparr>"]
    Run_skip_no_effects [of "example_env\<lparr>FindOneId := (\<lambda>i. Inr (Some (example_host\<lparr>Provisioned := True\<rparr>)))\<rparr>"
      "makeSetupHostJob\<lparr>HostID := ''h1''\<rparr>" "example_host\<lparr>Provisioned := True\<rparr>"]
  by (simp add: NewHostSetupJob_def makeSetupHostJob_def runs_on_def)

section \<open>C3: credentials are saved only after the remote write\<close>

text \<open>
  C3. In \<open>putJasperCredentials\<close> the generated credential bundle is saved only after the
  remote write command has succeeded: a save appears in the trace only if the remote
  write returned no error; if the remote write fails, the call returns an error and the
  credential store is what it was (no record is stored); if generation, the rendering of
  the command, the remote write and the save all succeed, the call returns no error, its
  effects are the generation, the log entry, the remote write under \<open>scpTimeout\<close> and
  one save, and the store holds the bundle under the host's id: exactly one record when
  the store was empty.
\<close>

theorem putJasperCredentials_save_after_write:
  "(\<forall>i c x. CredSave i c x \<in> set (snd (putJasperCredentials env h opts)) \<longrightarrow>
       snd (RunCommand env CredentialsWrite) = None)
   \<and> (snd (RunCommand env CredentialsWrite) \<noteq> None \<longrightarrow>
        fst (putJasperCredentials env h opts) \<noteq> None
        \<and> store_after (snd (putJasperCredentials env h opts)) m = m)
   \<and> (GenerateJasperCredentials_res env = Inr c
        \<and> WriteJasperCredentialsFilesCommands env c = Inr cmds
        \<and> snd (RunCommand env CredentialsWrite) = None
        \<and> SaveJasperCredentials_err env = None \<longrightarrow>
        putJasperCredentials env h opts =
          (None,
           [CredGenerate (Id_host h), Log LevelInfo ''putting Jasper credentials on host'',
            Remote CredentialsWrite (cmds # opts) (Some scpTimeout),
            CredSave (Id_host h) c None])
        \<and> store_after (snd (putJasperCredentials env h opts)) m = m(Id_host h \<mapsto> c)
        \<and> dom (store_after (snd (putJasperCredentials env h opts)) Map.empty) = {Id_host h})"
  by (auto simp: putJasperCredentials_def GenerateJasperCredentials_def SaveJasperCredentials_def
      run_remote_def grip_def store_after_def Let_def
      split: sum.splits option.splits prod.splits)

text \<open>
  C3 at the example host: in the world where every call succeeds, and in the world where
  the remote command fails.
\<close>

theorem putJasperCredentials_save_after_write_witness:
  "putJasperCredentials example_env example_host [''-i'', ''key.pem''] =
     (None,
      [CredGenerate ''h1'', Log LevelInfo ''putting Jasper credentials on host'',
       Remote CredentialsWrite [''write secret'', ''-i'', ''key.pem''] (Some scpTimeout),
       CredSave ''h1'' ''secret'' None])
   \<and> dom (store_after (snd (putJasperCredentials example_env example_host [''-i'', ''key.pem'']))
            Map.empty) = {''h1''}
   \<and> fst (putJasperCredentials (example_env\<lparr>RunCommand := (\<lambda>op. (''denied'', Some ''exit status 1''))\<rparr>)
            example_host [''-i'', ''key.pem'']) \<noteq> None
   \<and> store_after (snd (putJasperCredentials
                          (example_env\<lparr>RunCommand := (\<lambda>op. (''denied'', Some ''exit status 1''))\<rparr>)
                          example_host [''-i'', ''key.pem''])) Map.empty = Map.empty"
  using putJasperCredentials_save_after_write [of example_env example_host "[''-i'', ''key.pem'']"
      Map.empty "''secret''" "''write secret''"]
    putJasperCredentials_save_after_write
      [of "example_env\<lparr>RunCommand := (\<lambda>op. (''denied'', Some ''exit status 1''))\<rparr>" example_host
        "[''-i'', ''key.pem'']" Map.empty "''secret''" "''write secret''"]
  by (simp add: example_env_simps example_host_simps store_after_def)

section \<open>C4: the temporary file of a script copy\<close>

text \<open>
  C4 says that every call of the script copy deletes its local temporary file on every
  exit path taken after the file was created. The code registers the deferred removal
  only after \<open>os.Chmod\<close> has succeeded: when \<open>os.Chmod\<close> fails on the new file, both
  \<open>copyScript\<close> functions return the error with the file created and not removed. At
  the example host, with a world in which \<open>os.Chmod\<close> fails: the trace is the creation
  and the failed chmod, there is no removal, and the file exists after the call.
\<close>

theorem copyScript_chmod_failure_keeps_file:
  "setupHostJob_copyScript (example_env\<lparr>Chmod_err := (\<lambda>f. Some ''operation not permitted'')\<rparr>)
     example_host ''~/setup.sh'' ''echo hi'' =
     (Some ''error setting file permissions: operation not permitted'',
      [FileCreate ''setup.sh'' (Inr ''/tmp/setup.sh42''), FileChmod ''/tmp/setup.sh42''])
   \<and> copyScript (example_env\<lparr>Chmod_err := (\<lambda>f. Some ''operation not permitted'')\<rparr>)
     example_host ''~/setup.sh'' ''echo hi'' =
     (Some ''error setting file permissions: operation not permitted'',
      [FileCreate ''setup.sh'' (Inr ''/tmp/setup.sh42''), FileChmod ''/tmp/setup.sh42''])
   \<and> files_after [FileCreate ''setup.sh'' (Inr ''/tmp/setup.sh42''), FileChmod ''/tmp/setup.sh42''] []
       = [''/tmp/setup.sh42'']"
  by (simp add: setupHostJob_copyScript_def copyScript_def example_env_def example_host_def
      ioutil_TempFile_def filepath_Base_def wrap_def files_after_def Let_def)

text \<open>
  On every exit path taken after \<open>os.Chmod\<close> has succeeded the deferred function does
  run: whenever \<open>os.Remove\<close> succeeds, the file does not exist after the call.
\<close>

lemma copyScript_removes_after_chmod:
  assumes "GetSSHInfo env h = Inr info" and "TempFile env (filepath_Base name) = Inr file"
    and "Chmod_err env file = None" and "Remove_err env file = None"
  shows "file \<notin> set (files_after (snd (copyScript env h name script)) fs)"
    and "file \<notin> set (files_after (snd (setupHostJob_copyScript env h name script)) fs)"
  using assms
  by (auto simp: copyScript_def setupHostJob_copyScript_def copyScript_deferred_def
      ioutil_TempFile_def os_Remove_def run_remote_def grip_def grip_WrapError_def
      files_after_def Let_def split_beta
      split: sum.splits option.splits)

section \<open>C10: the DNS name of the host\<close>

text \<open>
  C10. \<open>setDNSName\<close> on a host whose DNS name is already set returns success with no
  effect: the cloud manager is not asked. When the cloud manager is asked and answers
  with an empty name, the step succeeds if and only if the host has an IP address, and
  the host is unchanged. When it answers with a non-empty name, that name is written to
  the host with \<open>SetDNSName\<close>: if the write succeeds the step succeeds and the host
  carries the name, if the write fails the step fails.
\<close>

theorem setDNSName_cases:
  "(Host h \<noteq> [] \<longrightarrow> setDNSName env h = (None, h, []))
   \<and> (Host h = [] \<and> GetDNSName env h = Inr [] \<longrightarrow>
        snd (snd (setDNSName env h)) = [CloudGetDNSName]
        \<and> fst (snd (setDNSName env h)) = h
        \<and> (fst (setDNSName env h) = None \<longleftrightarrow> IP h \<noteq> []))
   \<and> (Host h = [] \<and> GetDNSName env h = Inr dns \<and> dns \<noteq> [] \<longrightarrow>
        snd (snd (setDNSName env h)) = [CloudGetDNSName, HostOp (OpSetDNSName dns)]
        \<and> (SetDNSName_err env = None \<longrightarrow>
             fst (setDNSName env h) = None \<and> fst (snd (setDNSName env h)) = h\<lparr>Host := dns\<rparr>)
        \<and> (SetDNSName_err env \<noteq> None \<longrightarrow>
             fst (setDNSName env h) \<noteq> None \<and> fst (snd (setDNSName env h)) = h))"
  by (auto simp: setDNSName_def SetDNSName_def split: sum.splits option.splits prod.splits)

text \<open>
  C10 at the example host: with a DNS name set, with none and an empty answer (with and
  without an IP address), and with none and the answer \<open>dns.example.com\<close>.
\<close>

theorem setDNSName_cases_witness:
  "setDNSName (example_env\<lparr>GetDNSName := (\<lambda>h. Inl ''unreachable'')\<rparr>) example_host
     = (None, example_host, [])
   \<and> fst (setDNSName (example_env\<lparr>GetDNSName := (\<lambda>h. Inr [])\<rparr>)
            (example_host\<lparr>Host := [], IP := ''10.0.0.7''\<rparr>)) = None
   \<and> fst (setDNSName (example_env\<lparr>GetDNSName := (\<lambda>h. Inr [])\<rparr>) (example_host\<lparr>Host := []\<rparr>))
       \<noteq> None
   \<and> snd (snd (setDNSName (example_env\<lparr>GetDNSName := (\<lambda>h. Inr [])\<rparr>) (example_host\<lparr>Host := []\<rparr>)))
       = [CloudGetDNSName]
   \<and> fst (snd (setDNSName example_env (example_host\<lparr>Host := []\<rparr>)))
       = example_host\<lparr>Host := ''dns.example.com''\<rparr>
   \<and> snd (snd (setDNSName example_env (example_host\<lparr>Host := []\<rparr>)))
       = [CloudGetDNSName, HostOp (OpSetDNSName ''dns.example.com'')]"
  using setDNSName_cases [of example_host "example_env\<lparr>GetDNSName := (\<lambda>h. Inl ''unreachable'')\<rparr>" "[]"]
    setDNSName_cases [of "example_host\<lparr>Host := [], IP := ''10.0.0.7''\<rparr>"
      "example_env\<lparr>GetDNSName := (\<lambda>h. Inr [])\<rparr>" "[]"]
    setDNSName_cases [of "example_host\<lparr>Host := []\<rparr>" "example_env\<lparr>GetDNSName := (\<lambda>h. Inr [])\<rparr>" "[]"]
    setDNSName_cases [of "example_host\<lparr>Host := []\<rparr>" example_env "''dns.example.com''"]
  by (simp add: example_env_simps example_host_simps)

section \<open>C2: a failed bootstrap is retried or ends in Unprovisioned\<close>

text \<open>
  C2 as stated fails on the code in four places, each at the example host with a
  bootstrap that fails at the cloud manager.
  \<^item> A host in status Starting is set Unprovisioned by its first failed attempt (attempt
    count 1, not above 15): \<open>shouldRetryProvisioning\<close> asks for status Provisioning.
  \<^item> On the sixteenth attempt of a Provisioning host \<open>provisionHost\<close> returns the error,
    but the run does not surface it: \<open>setupHost\<close> logs it and returns nil, and the job
    has no error.
  \<^item> On the sixteenth attempt, when the write of \<open>SetUnprovisioned\<close> fails, the failure
    is only logged and the status stays Provisioning: the host is not set Unprovisioned.
  \<^item> On the first attempt (a retry: \<open>provisionHost\<close> returns nil) a failed enqueue of the
    follow-up job adds its error to the job, so the run does return an error.
\<close>

theorem unprovisioned_before_limit:
  "fst (runHostSetup (example_env\<lparr>GetManager_err := Some ''no manager''\<rparr>)
          (example_host\<lparr>Status := HostStarting, ProvisionAttempts := 1\<rparr>)) \<noteq> None
   \<and> ProvisionAttempts (fst (snd (provisionHost (example_env\<lparr>GetManager_err := Some ''no manager''\<rparr>)
                                      (example_host\<lparr>Status := HostStarting\<rparr>)))) = 1
   \<and> Status (fst (snd (provisionHost (example_env\<lparr>GetManager_err := Some ''no manager''\<rparr>)
                          (example_host\<lparr>Status := HostStarting\<rparr>)))) = HostUnprovisioned
   \<and> fst (provisionHost (example_env\<lparr>GetManager_err := Some ''no manager''\<rparr>)
            (example_host\<lparr>ProvisionAttempts := 15\<rparr>)) \<noteq> None
   \<and> Errors (fst (Run (example_env\<lparr>GetManager_err := Some ''no manager''\<rparr>)
                    (NewHostSetupJob (example_host\<lparr>ProvisionAttempts := 15\<rparr>) ''attempt-15''))) = []
   \<and> Status (fst (snd (provisionHost
                          (example_env\<lparr>GetManager_err := Some ''no manager'',
                                       SetUnprovisioned_err := Some ''db down''\<rparr>)
                          (example_host\<lparr>ProvisionAttempts := 15\<rparr>)))) = HostProvisioning
   \<and> fst (provisionHost (example_env\<lparr>GetManager_err := Some ''no manager''\<rparr>) example_host) = None
   \<and> Errors (fst (Run (example_env\<lparr>GetManager_err := Some ''no manager'',
                                    RemoteQueue_Put_err := Some ''queue closed''\<rparr>)
                    (NewHostSetupJob example_host ''attempt-0''))) = [''queue closed'']"
proof -
  have a: "fst (runHostSetup (example_env\<lparr>GetManager_err := Some ''no manager''\<rparr>)
          (example_host\<lparr>Status := HostStarting, ProvisionAttempts := 1\<rparr>)) \<noteq> None"
    by (simp add: runHostSetup_def example_env_simps)
  have b: "ProvisionAttempts (fst (snd (provisionHost (example_env\<lparr>GetManager_err := Some ''no manager''\<rparr>)
                                      (example_host\<lparr>Status := HostStarting\<rparr>)))) = 1
     \<and> Status (fst (snd (provisionHost (example_env\<lparr>GetManager_err := Some ''no manager''\<rparr>)
                          (example_host\<lparr>Status := HostStarting\<rparr>)))) = HostUnprovisioned"
    by (simp add: provisionHost_def runHostSetup_def IncProvisionAttempts_def SetUnprovisioned_def
        shouldRetryProvisioning_def Let_def example_env_simps example_host_simps)
  have c: "fst (provisionHost (example_env\<lparr>GetManager_err := Some ''no manager''\<rparr>)
            (example_host\<lparr>ProvisionAttempts := 15\<rparr>)) \<noteq> None
     \<and> \<not> shouldRetryProvisioning (fst (snd (provisionHost (example_env\<lparr>GetManager_err := Some ''no manager''\<rparr>)
            (example_host\<lparr>ProvisionAttempts := 15\<rparr>))))"
    by (simp add: provisionHost_def runHostSetup_def IncProvisionAttempts_def SetUnprovisioned_def
        shouldRetryProvisioning_def provisionRetryLimit_def Let_def example_env_simps
        example_host_simps)
  have d: "Status (fst (snd (provisionHost
                          (example_env\<lparr>GetManager_err := Some ''no manager'',
                                       SetUnprovisioned_err := Some ''db down''\<rparr>)
                          (example_host\<lparr>ProvisionAttempts := 15\<rparr>)))) = HostProvisioning"
    by (simp add: provisionHost_def runHostSetup_def IncProvisionAttempts_def SetUnprovisioned_def
        shouldRetryProvisioning_def provisionRetryLimit_def Let_def example_env_simps
        example_host_simps)
  have e: "fst (provisionHost (example_env\<lparr>GetManager_err := Some ''no manager''\<rparr>) example_host) = None"
    by (simp add: provisionHost_def runHostSetup_def IncProvisionAttempts_def
        shouldRetryProvisioning_def provisionRetryLimit_def Let_def example_env_simps
        example_host_simps)
  have e': "shouldRetryProvisioning (fst (snd (provisionHost
               (example_env\<lparr>GetManager_err := Some ''no manager'',
                            RemoteQueue_Put_err := Some ''queue closed''\<rparr>) example_host)))"
    by (simp add: provisionHost_def runHostSetup_def IncProvisionAttempts_def
        shouldRetryProvisioning_def provisionRetryLimit_def Let_def example_env_simps
        example_host_simps)
  have n: "Errors (NewHostSetupJob h ident) = []" for h ident
    by (simp add: NewHostSetupJob_def makeSetupHostJob_def)
  have g: "Errors (fst (Run (example_env\<lparr>GetManager_err := Some ''no manager''\<rparr>)
                    (NewHostSetupJob (example_host\<lparr>ProvisionAttempts := 15\<rparr>) ''attempt-15''))) = []"
    using c
    by (subst Run_errors(2) [OF runs_on_NewHostSetupJob])
      (simp_all add: skipped_def example_env_simps example_host_simps n)
  have h: "Errors (fst (Run (example_env\<lparr>GetManager_err := Some ''no manager'',
                                    RemoteQueue_Put_err := Some ''queue closed''\<rparr>)
                    (NewHostSetupJob example_host ''attempt-0''))) = [''queue closed'']"
    using e'
    by (subst Run_errors(2) [OF runs_on_NewHostSetupJob])
      (simp_all add: skipped_def example_env_simps example_host_simps n)
  from a b c d e g h show ?thesis by simp
qed

text \<open>
  C2, amended. For every run in which the bootstrap sequence returns an error (the
  sequence runs on the host with its attempt count incremented, and on an error it
  leaves status, provisioned flag and attempt count as they were):
  \<^item> if the incremented attempt count is at most 15, the status is Provisioning and the
    host is not provisioned, \<open>provisionHost\<close> returns no error, the status stays
    Provisioning, \<open>SetUnprovisioned\<close> is not called and no provisioning-failed event is
    emitted; the job gets no error from the failed bootstrap, only the error of a failed
    enqueue of the follow-up job when the queue is started;
  \<^item> otherwise the provisioning-failed event is emitted, \<open>SetUnprovisioned\<close> is called,
    the status is Unprovisioned when that write succeeds and unchanged (with the failure
    logged) when it fails, and \<open>provisionHost\<close> returns the error, wrapped; \<open>setupHost\<close>
    logs that error and the job gets no error;
  \<^item> so a host that is Provisioning and not provisioned becomes Unprovisioned exactly
    when the incremented attempt count exceeds 15 and the write succeeds, never earlier.
\<close>

theorem provisionHost_bootstrap_error:
  assumes "fst (runHostSetup env (h\<lparr>ProvisionAttempts := ProvisionAttempts h + 1\<rparr>)) = Some e"
  shows "(ProvisionAttempts h + 1 \<le> 15 \<and> Status h = HostProvisioning \<and> \<not> Provisioned h \<longrightarrow>
            fst (provisionHost env h) = None
            \<and> Status (fst (snd (provisionHost env h))) = HostProvisioning
            \<and> HostOp OpSetUnprovisioned \<notin> set (snd (snd (provisionHost env h)))
            \<and> EventProvisionFailed (Id_host h) [] \<notin> set (snd (snd (provisionHost env h)))
            \<and> (runs_on env j h \<and> \<not> skipped h \<and> ctx_Err env = None \<longrightarrow>
                 jhost (fst (Run env j)) = Some (fst (snd (provisionHost env h)))
                 \<and> Errors (fst (Run env j)) =
                     Errors j
                     @ (if RemoteQueue_Started env
                        then (case RemoteQueue_Put_err env of None \<Rightarrow> [] | Some x \<Rightarrow> [x])
                        else [])))
         \<and> (\<not> (ProvisionAttempts h + 1 \<le> 15 \<and> Status h = HostProvisioning \<and> \<not> Provisioned h) \<longrightarrow>
            fst (provisionHost env h) = Some (wrap e (''error initializing host '' @ Id_host h))
            \<and> HostOp OpSetUnprovisioned \<in> set (snd (snd (provisionHost env h)))
            \<and> EventProvisionFailed (Id_host h) [] \<in> set (snd (snd (provisionHost env h)))
            \<and> Status (fst (snd (provisionHost env h))) =
                (if SetUnprovisioned_err env = None then HostUnprovisioned else Status h)
            \<and> (SetUnprovisioned_err env \<noteq> None \<longrightarrow>
                 Log LevelError ''setting host unprovisioned'' \<in> set (snd (snd (provisionHost env h))))
            \<and> (runs_on env j h \<and> \<not> skipped h \<and> ctx_Err env = None \<longrightarrow>
                 jhost (fst (Run env j)) = Some (fst (snd (provisionHost env h)))
                 \<and> Errors (fst (Run env j)) = Errors j
                 \<and> Log LevelError ''provisioning host encountered error'' \<in> set (snd (Run env j))))
         \<and> (Status h = HostProvisioning \<and> \<not> Provisioned h \<longrightarrow>
              (Status (fst (snd (provisionHost env h))) = HostUnprovisioned
               \<longleftrightarrow> 15 < ProvisionAttempts h + 1 \<and> SetUnprovisioned_err env = None))"
proof -
  let ?A = "ProvisionAttempts h + 1 \<le> 15 \<and> Status h = HostProvisioning \<and> \<not> Provisioned h"
  let ?h1 = "h\<lparr>ProvisionAttempts := ProvisionAttempts h + 1\<rparr>"
  let ?h2 = "fst (snd (runHostSetup env ?h1))"
  let ?hp = "fst (snd (provisionHost env h))"
  have st: "Status ?h2 = Status h"
    using bootstrap_error_frame [OF assms] by simp
  have fr: "ProvisionAttempts ?h2 = ProvisionAttempts h + 1" "Provisioned ?h2 = Provisioned h"
    "Id_host ?h2 = Id_host h"
    by (simp_all add: runHostSetup_host)
  have sig: "list_all (bootstrap_effect (SpawnedByTask (SpawnOptions h))) (snd (snd (runHostSetup env ?h1)))"
    using runHostSetup_effects [of ?h1 env] by simp
  have no: "HostOp OpSetUnprovisioned \<notin> set (snd (snd (runHostSetup env ?h1)))"
    "EventProvisionFailed (Id_host h) [] \<notin> set (snd (snd (runHostSetup env ?h1)))"
    using list_all_not_in [OF sig, of "HostOp OpSetUnprovisioned"]
      list_all_not_in [OF sig, of "EventProvisionFailed (Id_host h) []"]
    by simp_all
  have retry: "shouldRetryProvisioning ?h2 \<longleftrightarrow> ?A"
    by (simp add: shouldRetryProvisioning_def provisionRetryLimit_def st fr)
  have p: "(?A \<longrightarrow>
            fst (provisionHost env h) = None
            \<and> ?hp = ?h2
            \<and> HostOp OpSetUnprovisioned \<notin> set (snd (snd (provisionHost env h)))
            \<and> EventProvisionFailed (Id_host h) [] \<notin> set (snd (snd (provisionHost env h))))
         \<and> (\<not> ?A \<longrightarrow>
            fst (provisionHost env h) = Some (wrap e (''error initializing host '' @ Id_host h))
            \<and> ?hp = fst (snd (SetUnprovisioned env ?h2))
            \<and> HostOp OpSetUnprovisioned \<in> set (snd (snd (provisionHost env h)))
            \<and> EventProvisionFailed (Id_host h) [] \<in> set (snd (snd (provisionHost env h)))
            \<and> (SetUnprovisioned_err env \<noteq> None \<longrightarrow>
                 Log LevelError ''setting host unprovisioned'' \<in> set (snd (snd (provisionHost env h)))))"
    unfolding provisionHost_def IncProvisionAttempts_def
    using assms no
    by (simp add: Let_def split_beta retry fr grip_def grip_WrapError_def SetUnprovisioned_def
        split: option.splits)
  have su: "Status (fst (snd (SetUnprovisioned env ?h2))) =
              (if SetUnprovisioned_err env = None then HostUnprovisioned else Status h)"
    "ProvisionAttempts (fst (snd (SetUnprovisioned env ?h2))) = ProvisionAttempts h + 1"
    "Provisioned (fst (snd (SetUnprovisioned env ?h2))) = Provisioned h"
    by (simp_all add: SetUnprovisioned_def st fr split: option.splits)
  have rp: "shouldRetryProvisioning ?hp \<longleftrightarrow> ?A"
  proof (cases ?A)
    case True
    with p retry show ?thesis by simp
  next
    case False
    with p have "?hp = fst (snd (SetUnprovisioned env ?h2))" by simp
    with False su show ?thesis
      by (auto simp: shouldRetryProvisioning_def provisionRetryLimit_def)
  qed
  have r: "jhost (fst (Run env j)) = Some ?hp
      \<and> Errors (fst (Run env j)) =
           Errors j
           @ (if ?A \<and> RemoteQueue_Started env
              then (case RemoteQueue_Put_err env of None \<Rightarrow> [] | Some x \<Rightarrow> [x]) else [])"
    if "runs_on env j h" "\<not> skipped h" "ctx_Err env = None"
    using Run_errors [OF that] rp by simp
  have l: "Log LevelError ''provisioning host encountered error'' \<in> set (snd (Run env j))"
    if "runs_on env j h" "\<not> skipped h" "ctx_Err env = None" "\<not> ?A"
  proof -
    from p that(4) have "fst (provisionHost env h) \<noteq> None" by simp
    from setupHost_not_cancelled(2) [OF that(3) this] that(1,2)
    show ?thesis by (simp add: Run_not_skipped)
  qed
  have s: "Status ?hp = (if ?A then HostProvisioning
                         else if SetUnprovisioned_err env = None then HostUnprovisioned else Status h)"
    using p su st by (cases ?A) simp_all
  show ?thesis
  proof (cases ?A)
    case True
    with p r s show ?thesis by auto
  next
    case False
    with p r l s show ?thesis by auto
  qed
qed

text \<open>
  C2 (amended) at the example host, whose bootstrap fails at the cloud manager: on the
  first attempt (retry) and on the sixteenth (Unprovisioned), each as the run of a job.
\<close>

theorem provisionHost_bootstrap_error_witness:
  "fst (provisionHost (example_env\<lparr>GetManager_err := Some ''no manager''\<rparr>) example_host) = None
   \<and> Status (fst (snd (provisionHost (example_env\<lparr>GetManager_err := Some ''no manager''\<rparr>)
                          example_host))) = HostProvisioning
   \<and> HostOp OpSetUnprovisioned
       \<notin> set (snd (snd (provisionHost (example_env\<lparr>GetManager_err := Some ''no manager''\<rparr>)
                          example_host)))
   \<and> Errors (fst (Run (example_env\<lparr>GetManager_err := Some ''no manager''\<rparr>)
                    (NewHostSetupJob example_host ''attempt-0''))) = []
   \<and> fst (provisionHost (example_env\<lparr>GetManager_err := Some ''no manager''\<rparr>)
            (example_host\<lparr>ProvisionAttempts := 15\<rparr>)) \<noteq> None
   \<and> Status (fst (snd (provisionHost (example_env\<lparr>GetManager_err := Some ''no manager''\<rparr>)
                          (example_host\<lparr>ProvisionAttempts := 15\<rparr>)))) = HostUnprovisioned
   \<and> HostOp OpSetUnprovisioned
       \<in> set (snd (snd (provisionHost (example_env\<lparr>GetManager_err := Some ''no manager''\<rparr>)
                          (example_host\<lparr>ProvisionAttempts := 15\<rparr>))))
   \<and> Errors (fst (Run (example_env\<lparr>GetManager_err := Some ''no manager''\<rparr>)
                    (NewHostSetupJob (example_host\<lparr>ProvisionAttempts := 15\<rparr>) ''attempt-15''))) = []
   \<and> Log LevelError ''provisioning host encountered error''
       \<in> set (snd (Run (example_env\<lparr>GetManager_err := Some ''no manager''\<rparr>)
                     (NewHostSetupJob (example_host\<lparr>ProvisionAttempts := 15\<rparr>) ''attempt-15'')))"
proof -
  let ?env = "example_env\<lparr>GetManager_err := Some ''no manager''\<rparr>"
  have f: "fst (runHostSetup ?env (h\<lparr>ProvisionAttempts := ProvisionAttempts h + 1\<rparr>)) =
             Some (wrap ''no manager'' (''failed to get cloud manager for host '' @ Id_host h
                                        @ '' with provider '' @ Provider h))" for h
    by (simp add: runHostSetup_def example_env_simps)
  have e: "Errors (NewHostSetupJob h ident) = []" for h ident
    by (simp add: NewHostSetupJob_def makeSetupHostJob_def)
  show ?thesis
    using provisionHost_bootstrap_error [OF f [of example_host],
        of "NewHostSetupJob example_host ''attempt-0''"]
      provisionHost_bootstrap_error [OF f [of "example_host\<lparr>ProvisionAttempts := 15\<rparr>"],
        of "NewHostSetupJob (example_host\<lparr>ProvisionAttempts := 15\<rparr>) ''attempt-15''"]
    by (simp add: example_env_simps example_host_simps runs_on_NewHostSetupJob skipped_def e)
qed

section \<open>C5: a host bootstrapped with user data\<close>



section \<open>C6: no distro script for a host spawned by a task\<close>

text \<open>
  C6. For every host with the spawned-by-task flag set, whatever its distro's setup and
  teardown scripts are: the end of \<open>runHostSetup\<close>, the only caller of the job's
  \<open>copyScript\<close>, returns at once with no effect, and no run of a job on that host
  transfers a script with the job's \<open>copyScript\<close>, under any name.
\<close>

theorem spawned_by_task_no_script_copy:
  assumes "SpawnedByTask (SpawnOptions h)"
  shows "runHostSetup_scripts env h = (None, [])
       \<and> (runs_on env j h \<longrightarrow>
            Remote (ScriptScp JobCopyScript name) args d \<notin> set (snd (Run env j)))"
proof -
  have "Remote (ScriptScp JobCopyScript name) args d \<notin> set (snd (Run env j))"
    if "runs_on env j h"
    using list_all_not_in [OF Run_effects [OF that], of "Remote (ScriptScp JobCopyScript name) args d"]
      assms
    by simp
  with assms show ?thesis by (simp add: runHostSetup_scripts_spawned)
qed

text \<open>
  C6 at the example host, whose distro has the setup script \<open>echo hi\<close>, with the flag
  set: the transfer that the same run makes without the flag (lemma below) is absent.
\<close>

theorem spawned_by_task_no_script_copy_witness:
  "Setup (Distro (example_host\<lparr>SpawnOptions := \<lparr>SpawnedByTask = True\<rparr>\<rparr>)) = ''echo hi''
   \<and> runHostSetup_scripts example_env (example_host\<lparr>SpawnOptions := \<lparr>SpawnedByTask = True\<rparr>\<rparr>)
       = (None, [])
   \<and> Remote (ScriptScp JobCopyScript ''~/setup.sh'')
        [''scp'', ''-vvv'', ''-P'', ''22'', ''-i'', ''key.pem'', ''/tmp/setup.sh42'',
         ''ubuntu@h1.example.com:~/setup.sh'']
        (Some scpTimeout)
       \<notin> set (snd (Run example_env
                     (NewHostSetupJob (example_host\<lparr>SpawnOptions := \<lparr>SpawnedByTask = True\<rparr>\<rparr>)
                        ''attempt-0'')))"
  using spawned_by_task_no_script_copy
    [of "example_host\<lparr>SpawnOptions := \<lparr>SpawnedByTask = True\<rparr>\<rparr>" example_env
      "NewHostSetupJob (example_host\<lparr>SpawnOptions := \<lparr>SpawnedByTask = True\<rparr>\<rparr>) ''attempt-0''"
      "''~/setup.sh''"
      "[''scp'', ''-vvv'', ''-P'', ''22'', ''-i'', ''key.pem'', ''/tmp/setup.sh42'',
        ''ubuntu@h1.example.com:~/setup.sh'']"
      "Some scpTimeout"]
  by (simp add: runs_on_NewHostSetupJob example_host_simps example_distro_def)

lemma example_run_has_script_copy:
  "Remote (ScriptScp JobCopyScript ''~/setup.sh'')
        [''scp'', ''-vvv'', ''-P'', ''22'', ''-i'', ''key.pem'', ''/tmp/setup.sh42'',
         ''ubuntu@h1.example.com:~/setup.sh'']
        (Some scpTimeout)
       \<in> set (snd (Run example_env (NewHostSetupJob example_host ''attempt-0'')))"
  by (simp add: run_defs)

section \<open>C7: the attempt count\<close>




section \<open>C8: the follow-up job\<close>

text \<open>
  C8. For every run of the job, the jobs that the run puts on the remote queue are: one
  job, when the host that the run leaves has an attempt count of at most 15, status
  Provisioning and is not provisioned, and the remote queue is started; none otherwise
  (in particular none for a skipped run and none when no host is found). That one job is
  the job that \<open>NewHostSetupJob\<close> builds for the same host: its id is the job name, the
  host id and \<open>attempt-\<close> with the host's current attempt count, its priority is 1, and
  it is not to run before one minute after now. The host it carries has the id of the
  host the run started on. When the enqueue fails, the failure is logged (the last
  effect of the run), its error is added to the job, and there is no second enqueue.
\<close>

theorem requeue_iff_retry:
  "filter is_QueuePut (snd (Run env j)) =
     (case jhost (fst (Run env j)) of
        None \<Rightarrow> []
      | Some h' \<Rightarrow>
          if (ProvisionAttempts h' \<le> 15 \<and> Status h' = HostProvisioning \<and> \<not> Provisioned h')
             \<and> RemoteQueue_Started env then
            [QueuePut
               \<lparr>HostID = Id_host h',
                JobID = ''provisioning-setup-host.'' @ Id_host h' @ ''.attempt-''
                        @ Sprintf_d (ProvisionAttempts h'),
                TaskID = [], Priority = 1, WaitUntil = Some (Now env + 60 * Second),
                jhost = Some h', Errors = [], Complete = False\<rparr>]
          else [])
   \<and> (runs_on env j h \<longrightarrow> map_option Id_host (jhost (fst (Run env j))) = Some (Id_host h))
   \<and> (filter is_QueuePut (snd (Run env j)) \<noteq> [] \<and> RemoteQueue_Put_err env = Some e \<longrightarrow>
        last (snd (Run env j)) = Log LevelCritical ''failed to requeue setup job''
        \<and> last (Errors (fst (Run env j))) = e)"
proof -
  have a: "filter is_QueuePut (snd (Run env j)) =
     (case jhost (fst (Run env j)) of
        None \<Rightarrow> []
      | Some h' \<Rightarrow>
          if (ProvisionAttempts h' \<le> 15 \<and> Status h' = HostProvisioning \<and> \<not> Provisioned h')
             \<and> RemoteQueue_Started env then
            [QueuePut
               \<lparr>HostID = Id_host h',
                JobID = ''provisioning-setup-host.'' @ Id_host h' @ ''.attempt-''
                        @ Sprintf_d (ProvisionAttempts h'),
                TaskID = [], Priority = 1, WaitUntil = Some (Now env + 60 * Second),
                jhost = Some h', Errors = [], Complete = False\<rparr>]
          else [])"
    by (simp add: Run_requeue shouldRetryProvisioning_def provisionRetryLimit_def
        split: option.splits)
  have b: "map_option Id_host (jhost (fst (Run env j))) = Some (Id_host h)" if "runs_on env j h"
    using that by (rule Run_id)
  have c: "last (snd (Run env j)) = Log LevelCritical ''failed to requeue setup job''
           \<and> last (Errors (fst (Run env j))) = e"
    if "filter is_QueuePut (snd (Run env j)) \<noteq> []" "RemoteQueue_Put_err env = Some e"
    using Run_requeue_failure [OF that] by simp
  from a b c show ?thesis by blast
qed

text \<open>
  C8 at the example host with a bootstrap that fails at the cloud manager: a first
  attempt with an enqueue that fails, the same with the queue not started, and the
  sixteenth attempt.
\<close>

theorem requeue_iff_retry_witness:
  "filter is_QueuePut
     (snd (Run (example_env\<lparr>GetManager_err := Some ''no manager'',
                            RemoteQueue_Put_err := Some ''queue closed''\<rparr>)
             (NewHostSetupJob example_host ''attempt-0''))) =
     [QueuePut
        \<lparr>HostID = ''h1'', JobID = ''provisioning-setup-host.h1.attempt-1'', TaskID = [],
         Priority = 1, WaitUntil = Some (1000 + 60 * Second),
         jhost = Some (example_host\<lparr>ProvisionAttempts := 1\<rparr>), Errors = [], Complete = False\<rparr>]
   \<and> last (snd (Run (example_env\<lparr>GetManager_err := Some ''no manager'',
                                  RemoteQueue_Put_err := Some ''queue closed''\<rparr>)
                   (NewHostSetupJob example_host ''attempt-0'')))
       = Log LevelCritical ''failed to requeue setup job''
   \<and> last (Errors (fst (Run (example_env\<lparr>GetManager_err := Some ''no manager'',
                                  RemoteQueue_Put_err := Some ''queue closed''\<rparr>)
                   (NewHostSetupJob example_host ''attempt-0'')))) = ''queue closed''
   \<and> filter is_QueuePut
       (snd (Run (example_env\<lparr>GetManager_err := Some ''no manager'',
                              RemoteQueue_Started := False\<rparr>)
               (NewHostSetupJob example_host ''attempt-0''))) = []
   \<and> filter is_QueuePut
       (snd (Run (example_env\<lparr>GetManager_err := Some ''no manager''\<rparr>)
               (NewHostSetupJob (example_host\<lparr>ProvisionAttempts := 15\<rparr>) ''attempt-15''))) = []"
proof -
  have a: "jhost (fst (Run (example_env\<lparr>GetManager_err := Some ''no manager'',
                            RemoteQueue_Put_err := Some ''queue closed''\<rparr>)
             (NewHostSetupJob example_host ''attempt-0''))) = Some (example_host\<lparr>ProvisionAttempts := 1\<rparr>)"
    by (simp add: run_defs)
  have b: "jhost (fst (Run (example_env\<lparr>GetManager_err := Some ''no manager'',
                              RemoteQueue_Started := False\<rparr>)
               (NewHostSetupJob example_host ''attempt-0''))) = Some (example_host\<lparr>ProvisionAttempts := 1\<rparr>)"
    by (simp add: run_defs)
  have c: "jhost (fst (Run (example_env\<lparr>GetManager_err := Some ''no manager''\<rparr>)
               (NewHostSetupJob (example_host\<lparr>ProvisionAttempts := 15\<rparr>) ''attempt-15'')))
           = Some (example_host\<lparr>ProvisionAttempts := 16, Status := HostUnprovisioned\<rparr>)"
    by (simp add: run_defs)
  have d: "Sprintf_d 1 = ''1''"
    by code_simp
  show ?thesis
    using requeue_iff_retry [of "example_env\<lparr>GetManager_err := Some ''no manager'',
                            RemoteQueue_Put_err := Some ''queue closed''\<rparr>"
        "NewHostSetupJob example_host ''attempt-0''" example_host "''queue closed''"]
      requeue_iff_retry [of "example_env\<lparr>GetManager_err := Some ''no manager'',
                              RemoteQueue_Started := False\<rparr>"
        "NewHostSetupJob example_host ''attempt-0''" example_host "''queue closed''"]
      requeue_iff_retry [of "example_env\<lparr>GetManager_err := Some ''no manager''\<rparr>"
        "NewHostSetupJob (example_host\<lparr>ProvisionAttempts := 15\<rparr>) ''attempt-15''"
        "example_host\<lparr>ProvisionAttempts := 15\<rparr>" "''queue closed''"]
    by (simp add: a b c d example_env_simps example_host_simps)
qed

section \<open>C9: the deadlines of the remote commands\<close>

text \<open>
  C9 says that every file transfer runs under a deadline of 60 seconds, the transfer of
  the client's configuration file included, and that every remote operation has the
  deadline of its class. In \<open>loadClient\<close> the transfer of the configuration file runs
  under a context of 30 seconds, and three remote commands get no deadline in this file:
  the command that fetches and reinstalls the agent, the spawn host's setup command and
  the run of the service-user script. At the example host with provision options that
  ask for the client, and at the example host with a Windows distro:
\<close>

theorem config_transfer_deadline:
  "Remote ConfigScp
     [''scp'', ''-vvv'', ''-P'', ''22'', ''-i'', ''key.pem'', ''-o'', ''UserKnownHostsFile=/dev/null'',
      ''/tmp/cfg7'', ''ubuntu@h1.example.com:~/cli_bin/.evergreen.yml'']
     (Some (30 * Second))
   \<in> set (snd (Run example_env
               (NewHostSetupJob
                  (example_host\<lparr>ProvisionOptions := Some \<lparr>LoadCLI = True, OwnerId = ''me'', TaskId = ''t1''\<rparr>\<rparr>)
                  ''attempt-0'')))
   \<and> 30 * Second \<noteq> 60 * Second
   \<and> Remote JasperFetchReinstall [''fetch jasper'', ''-i'', ''key.pem''] None
   \<in> set (snd (Run example_env
               (NewHostSetupJob
                  (example_host\<lparr>ProvisionOptions := Some \<lparr>LoadCLI = True, OwnerId = ''me'', TaskId = ''t1''\<rparr>\<rparr>)
                  ''attempt-0'')))
   \<and> Remote SpawnSetupCommand [''sh setup.sh'', ''-i'', ''key.pem''] None
   \<in> set (snd (Run example_env
               (NewHostSetupJob
                  (example_host\<lparr>ProvisionOptions := Some \<lparr>LoadCLI = True, OwnerId = ''me'', TaskId = ''t1''\<rparr>\<rparr>)
                  ''attempt-0'')))
   \<and> Remote ServiceUserRun
     [''powershell ./setup-user.ps1 && rm -f ./setup-user.ps1'', ''-i'', ''key.pem''] None
   \<in> set (snd (Run example_env
               (NewHostSetupJob (example_host\<lparr>Distro := example_distro\<lparr>IsWindows := True\<rparr>\<rparr>)
                  ''attempt-0'')))"
  using example_cli_run(1,3,4,5) by (simp add: Second_def)

text \<open>
  C9, amended. In every run, each remote command runs under the deadline that this file
  sets for its kind: 30 seconds for the remote shell setup of the client directory and
  for the transfer of the client's configuration file, 60 seconds for the credential
  write and for every script copy, 120 seconds for the download of the client binary,
  900 seconds for the fetch of a task's data; the run of the service-user script, the
  command that fetches and reinstalls the agent and the spawn host's setup command get
  no deadline of their own (they run under the caller's context).
\<close>

theorem remote_deadlines:
  assumes "Remote op args d \<in> set (snd (Run env j))"
  shows "(op = CliMkdir \<longrightarrow> d = Some (30 * Second))
       \<and> (op = ConfigScp \<longrightarrow> d = Some (30 * Second))
       \<and> (op = CredentialsWrite \<longrightarrow> d = Some (60 * Second))
       \<and> ((\<exists>c name. op = ScriptScp c name) \<longrightarrow> d = Some (60 * Second))
       \<and> (op = CliCurl \<longrightarrow> d = Some (120 * Second))
       \<and> (op = TaskDataFetch \<longrightarrow> d = Some (900 * Second))
       \<and> (op = ServiceUserRun \<or> op = JasperFetchReinstall \<or> op = SpawnSetupCommand \<longrightarrow> d = None)"
proof -
  have "d = remote_deadline op"
  proof (cases "\<exists>h. runs_on env j h")
    case True
    then obtain h where "runs_on env j h" ..
    from Run_effects [OF this] assms
    have "setup_effect (SpawnedByTask (SpawnOptions h)) (Remote op args d)
            \<or> is_QueuePut (Remote op args d) \<or> Remote op args d = DBFindHost (HostID j)"
      unfolding list_all_iff by (rule bspec)
    then show ?thesis by simp
  next
    case False
    with assms show ?thesis by (simp add: Run_not_found_effects)
  qed
  then show ?thesis by (cases op) auto
qed

text \<open>
  C9 (amended) at the example host with provision options that ask for the client: the
  transfer of the configuration file and the credential write.
\<close>

theorem remote_deadlines_witness:
  "Remote ConfigScp
     [''scp'', ''-vvv'', ''-P'', ''22'', ''-i'', ''key.pem'', ''-o'', ''UserKnownHostsFile=/dev/null'',
      ''/tmp/cfg7'', ''ubuntu@h1.example.com:~/cli_bin/.evergreen.yml'']
     (Some 30000000000)
   \<in> set (snd (Run example_env
               (NewHostSetupJob
                  (example_host\<lparr>ProvisionOptions := Some \<lparr>LoadCLI = True, OwnerId = ''me'', TaskId = ''t1''\<rparr>\<rparr>)
                  ''attempt-0'')))
   \<and> Some (30000000000 :: int) = Some (30 * Second)
   \<and> Some (60000000000 :: int) = Some (60 * Second)"
  using remote_deadlines [OF example_cli_run(1)] remote_deadlines [OF example_cli_run(2)]
    example_cli_run(1)
  by simp

end
